theory Spec2Isabelle
  imports Complex_Main "HOL-Library.Word"
begin

section \<open>Data model of the navigation core (navigation.cpp)\<close>

text \<open>
  Doubles are modelled as reals: no rounding, no infinities. A double that the source
  uses as a quiet-NaN sentinel for "unset" is a \<open>real option\<close> with \<open>None\<close>
  for the NaN. Vectors of Eigen (vec2, vec3) are tuples. Lod is an 8-bit unsigned integer
  and the tile indices are 32-bit unsigned integers, as in the tile id of vts-libs.
\<close>

type_synonym vec2 = "real \<times> real"
type_synonym vec3 = "real \<times> real \<times> real"
type_synonym addr = nat

datatype Validity = Indeterminate | Invalid | Valid

datatype SrsType = projected | geographic | cartesian

datatype NavigationGeographicMode = Azimuthal | Free | Dynamic

datatype NavigationType = Instant | Quick | FlyOver

datatype HeightMode = fixed | floating

datatype PositionType = objective | subjective

datatype PeriodicityType = PeriodicityX | PeriodicityY

datatype PartitioningMode = bisection | manual | barren

text \<open>
  The exceptions and aborts of the source: \<open>RuntimeError\<close> is the
  std::runtime_error of LOGTHROW(err1, ...), \<open>InvalidArgument\<close> the
  std::invalid_argument of LOGTHROW(fatal, ...), \<open>ConvertError\<close> an exception
  of the coordinate convertor, \<open>AssertionFailed\<close> a failed assert (also the one
  of reading an empty boost::optional). \<open>NotANumber\<close> is no exception: it stands
  for a result of the camera computations with a component that is not a finite number
  (a quotient by zero), which the model does not follow further.
\<close>

datatype error = RuntimeError | InvalidArgument | ConvertError | AssertionFailed | NotANumber

record TileId =
  lod :: "8 word"
  tile_x :: "32 word"
  tile_y :: "32 word"

text \<open>NodeInfo of vts-libs, reduced to what navigation.cpp reads from it.\<close>

record NodeInfo =
  nodeId :: TileId
  extents :: "vec2 \<times> vec2"
  srs :: string

text \<open>
  A TraverseNode of the tile tree. The tree is shared through shared_ptr and is changed
  by the traversal, so nodes live in a store and are named by address.
\<close>

record TraverseNode =
  tn_validity :: Validity
  tn_nodeId :: TileId
  tn_childs :: "addr list"
  tn_surrogateValue :: real

record CornerRequest =
  cr_nodeId :: TileId
  trav :: "addr option"
  cr_result :: "real option"

text \<open>
  HeightRequest. \<open>sds\<close>, \<open>interpol\<close> and \<open>resetOffset\<close> start as quiet NaN
  in the constructor; \<open>None\<close> is that NaN (for \<open>interpol\<close> also a quotient by an
  extent of size zero, which is not a finite number either).
\<close>

record HeightRequest =
  corners :: "CornerRequest list"
  hr_nodeInfo :: "NodeInfo option"
  hr_result :: "real option"
  navPos :: vec2
  sds :: "vec2 option"
  interpol :: "vec2 option"
  resetOffset :: "real option"

record Navigation =
  changeRotation :: vec3
  targetPoint :: vec3
  autoRotation :: real
  targetViewExtent :: real
  geographicMode :: NavigationGeographicMode
  nav_type :: NavigationType
  panZQueue :: "HeightRequest list"
  lastPanZShift :: "real option"

record Position =
  position :: vec3
  orientation :: vec3
  verticalExtent :: real
  verticalFov :: real
  heightMode :: HeightMode
  pos_type :: PositionType

record MapOptions =
  cameraInertiaPan :: real
  cameraInertiaRotate :: real
  cameraInertiaZoom :: real
  cameraSensitivityPan :: real
  cameraSensitivityRotate :: real
  cameraSensitivityZoom :: real
  navigationLatitudeThreshold :: real
  positionViewExtentMin :: real
  positionViewExtentMax :: real
  navigationSamplesPerViewExtent :: real
  geographicNavMode :: NavigationGeographicMode
  navigationType :: NavigationType

record Periodicity =
  pr_type :: PeriodicityType
  period :: real

record DivisionNode =
  dn_id :: TileId
  dn_partitioning :: PartitioningMode
  dn_srs :: string

text \<open>
  The part of MapImpl that navigation.cpp reads and writes: the navigation state, the
  position and the reference frame of the map configuration, the options, the root of
  the tile tree with the node store, and the statistics field it sets.
\<close>

record MapImpl =
  navigation :: Navigation
  pos :: Position
  options :: MapOptions
  navigationSrsType :: SrsType
  navigationSrs :: string
  periodicity :: "Periodicity option"
  divisionNodes :: "DivisionNode list"
  autorotate :: real
  traverseRoot :: "addr option"
  nodes :: "addr \<Rightarrow> TraverseNode"
  lastHeightRequestLod :: "8 word"

text \<open>
  The collaborators that are not part of navigation.cpp, as parameters: the coordinate
  convertor (\<open>convert\<close> may throw, which findInfoNavRoot catches: \<open>None\<close>), the
  NodeInfo operations of vts-libs, the traversal of the tile tree, the motion solver
  and the math helpers whose definition the specification does not give.
  \<open>geoDirectAzi\<close> is the four-argument geoDirect: it takes the value of its last
  argument and returns the value that argument has afterwards.
  \<open>shiftOutOfRange v n\<close> is the value of \<open>v >> n\<close> for a 32-bit \<open>v\<close> and
  \<open>n\<close> of 32 or more, which C++ leaves undefined: whatever the compiled code gives.
\<close>

record Env =
  convert :: "vec3 \<Rightarrow> string \<Rightarrow> string \<Rightarrow> vec3 option"
  physToNav :: "vec3 \<Rightarrow> vec3"
  navToPhys :: "vec3 \<Rightarrow> vec3"
  geoDirect :: "vec3 \<Rightarrow> real \<Rightarrow> real \<Rightarrow> vec3"
  geoDirectAzi :: "vec3 \<Rightarrow> real \<Rightarrow> real \<Rightarrow> real \<Rightarrow> vec3 \<times> real"
  geoInverse :: "vec3 \<Rightarrow> vec3 \<Rightarrow> real \<times> real \<times> real"
  geoArcDist :: "vec3 \<Rightarrow> vec3 \<Rightarrow> real"
  validSurrogate :: "real \<Rightarrow> bool"
  mkNodeInfo :: "TileId \<Rightarrow> NodeInfo"
  inside :: "NodeInfo \<Rightarrow> vec2 \<Rightarrow> bool"
  child :: "NodeInfo \<Rightarrow> TileId \<Rightarrow> NodeInfo"
  children :: "TileId \<Rightarrow> TileId list"
  extentsSize :: "vec2 \<times> vec2 \<Rightarrow> real"
  traverse :: "(addr \<Rightarrow> TraverseNode) \<Rightarrow> addr \<Rightarrow> (addr \<Rightarrow> TraverseNode)"
  navigationSolve :: "MapOptions \<Rightarrow> NavigationType \<Rightarrow> real \<Rightarrow> real \<Rightarrow> real \<Rightarrow> real
    \<Rightarrow> real \<Rightarrow> real \<Rightarrow> vec3 \<Rightarrow> vec3 \<Rightarrow> real \<times> real \<times> real \<times> vec3"
  angularDiff :: "real \<Rightarrow> real \<Rightarrow> real"
  rotationMatrix :: "nat \<Rightarrow> real \<Rightarrow> vec3 \<Rightarrow> vec3"
  atan2 :: "real \<Rightarrow> real \<Rightarrow> real"
  shiftOutOfRange :: "32 word \<Rightarrow> 32 word \<Rightarrow> 32 word"

section \<open>Vector helpers\<close>

definition vec2to3 :: "vec2 \<Rightarrow> real \<Rightarrow> vec3" where
  "vec2to3 v w = (fst v, snd v, w)"

definition vec3to2 :: "vec3 \<Rightarrow> vec2" where
  "vec3to2 v = (fst v, fst (snd v))"

definition v3x :: "vec3 \<Rightarrow> real" where
  "v3x v = fst v"

definition v3y :: "vec3 \<Rightarrow> real" where
  "v3y v = fst (snd v)"

definition v3z :: "vec3 \<Rightarrow> real" where
  "v3z v = snd (snd v)"

definition vadd :: "vec3 \<Rightarrow> vec3 \<Rightarrow> vec3" where
  "vadd a b = (v3x a + v3x b, v3y a + v3y b, v3z a + v3z b)"

definition vsub :: "vec3 \<Rightarrow> vec3 \<Rightarrow> vec3" where
  "vsub a b = (v3x a - v3x b, v3y a - v3y b, v3z a - v3z b)"

definition vscale :: "vec3 \<Rightarrow> real \<Rightarrow> vec3" where
  "vscale a k = (v3x a * k, v3y a * k, v3z a * k)"

definition cwiseProduct :: "vec3 \<Rightarrow> vec3 \<Rightarrow> vec3" where
  "cwiseProduct a b = (v3x a * v3x b, v3y a * v3y b, v3z a * v3z b)"

definition length2 :: "vec2 \<Rightarrow> real" where
  "length2 v = sqrt (fst v * fst v + snd v * snd v)"

text \<open>
  Modelled from the spec: interpolate, a math utility of the browser library that is not
  among the sources; the linear interpolation between two samples that the bilinear
  interpolation of the specification is made of.
\<close>

definition interpolate :: "real \<Rightarrow> real \<Rightarrow> real \<Rightarrow> real" where
  "interpolate a b f = (b - a) * f + a"

text \<open>
  Modelled from the spec: clamp, a math utility of the browser library that is not among
  the sources; the specification clamps a value into an interval.
\<close>

definition clamp :: "real \<Rightarrow> real \<Rightarrow> real \<Rightarrow> real" where
  "clamp v lo hi = (if v < lo then lo else if hi < v then hi else v)"

text \<open>
  Modelled from the spec: modulo, a math utility of the browser library that is not among
  the sources; the specification wraps a value with the period \<open>m\<close> into
  \<open>[0, m)\<close>.
\<close>

definition modulo :: "real \<Rightarrow> real \<Rightarrow> real" where
  "modulo a m = a - m * of_int \<lfloor>a / m\<rfloor>"

text \<open>
  Modelled from the spec: normalizeAngle, a math utility of the browser library that is
  not among the sources; the specification normalises an angle into \<open>[0, 360)\<close>.
\<close>

definition normalizeAngle :: "real \<Rightarrow> real" where
  "normalizeAngle a = modulo a 360"

text \<open>
  Modelled from the spec: degToRad and radToDeg, math utilities of the browser library
  that are not among the sources; the specification gives its angles in degrees.
\<close>

definition degToRad :: "real \<Rightarrow> real" where
  "degToRad a = a * pi / 180"

definition radToDeg :: "real \<Rightarrow> real" where
  "radToDeg a = a * 180 / pi"

section \<open>HeightRequest: the corner requests\<close>

text \<open>
  The id of the child of the current node on the way to the target (lines 87 to 92):
  lodDiff is a uint32 and wraps when the target is not below the current node, the lod
  is cut back to 8 bits by the assignment, and the shift of the indices by 32 or more,
  undefined in C++, is the one of the environment.
\<close>

definition shiftRight :: "Env \<Rightarrow> 32 word \<Rightarrow> 32 word \<Rightarrow> 32 word" where
  "shiftRight env v n = (if unat n < 32 then drop_bit (unat n) v else shiftOutOfRange env v n)"

definition childIdTowards :: "Env \<Rightarrow> TileId \<Rightarrow> TileId \<Rightarrow> TileId" where
  "childIdTowards env target cur =
     (let lodDiff = (ucast (lod target) :: 32 word) - ucast (lod cur) - 1
      in target\<lparr>lod := ucast ((ucast (lod target) :: 32 word) - lodDiff),
                tile_x := shiftRight env (tile_x target) lodDiff,
                tile_y := shiftRight env (tile_y target) lodDiff\<rparr>)"

text \<open>
  CornerRequest::process. The call process(nullptr) after the result is stored takes the
  first branch and never reads the map. A descent that never ends is \<open>None\<close>.
\<close>

partial_function (option) CornerRequest_process ::
  "Env \<Rightarrow> MapImpl \<Rightarrow> CornerRequest \<Rightarrow> (Validity \<times> CornerRequest \<times> MapImpl) option" where
  "CornerRequest_process env m c =
     (case cr_result c of
        Some r \<Rightarrow> Some (if validSurrogate env r then Valid else Invalid, c, m)
      | None \<Rightarrow>
          (case (case trav c of Some a \<Rightarrow> Some a | None \<Rightarrow> traverseRoot m) of
             None \<Rightarrow> Some (Indeterminate, c, m)
           | Some a \<Rightarrow>
               (case tn_validity (nodes m a) of
                  Invalid \<Rightarrow> Some (Invalid, c\<lparr>trav := Some a\<rparr>, m)
                | Indeterminate \<Rightarrow>
                    Some (Indeterminate, c\<lparr>trav := Some a\<rparr>,
                          m\<lparr>nodes := traverse env (nodes m) a\<rparr>)
                | Valid \<Rightarrow>
                    if tn_nodeId (nodes m a) = cr_nodeId c \<or> tn_childs (nodes m a) = []
                    then CornerRequest_process env m
                           (c\<lparr>trav := Some a, cr_result := Some (tn_surrogateValue (nodes m a))\<rparr>)
                    else
                      (case find (\<lambda>it. tn_nodeId (nodes m it)
                                        = childIdTowards env (cr_nodeId c) (tn_nodeId (nodes m a)))
                                 (tn_childs (nodes m a)) of
                         Some it \<Rightarrow> CornerRequest_process env m (c\<lparr>trav := Some it\<rparr>)
                       | None \<Rightarrow> Some (Invalid, c\<lparr>trav := Some a\<rparr>, m)))))"

section \<open>HeightRequest: locating the sampled tile\<close>

text \<open>
  MapImpl::findInfoNavRoot: the loop over the division nodes of the reference frame, in
  the order of the std::map. An exception of the convertor is caught and the node
  skipped; when no node is left the std::runtime_error "Invalid position" is thrown.
\<close>

fun findInfoNavRoot_nodes ::
  "Env \<Rightarrow> MapImpl \<Rightarrow> vec2 \<Rightarrow> DivisionNode list \<Rightarrow> error + NodeInfo \<times> vec2" where
  "findInfoNavRoot_nodes env m np [] = Inl RuntimeError"
| "findInfoNavRoot_nodes env m np (it # its) =
     (if dn_partitioning it \<noteq> bisection then findInfoNavRoot_nodes env m np its
      else
        (case convert env (vec2to3 np 0) (navigationSrs m) (dn_srs it) of
           None \<Rightarrow> findInfoNavRoot_nodes env m np its
         | Some v \<Rightarrow>
             if \<not> inside env (mkNodeInfo env (dn_id it)) (vec3to2 v)
             then findInfoNavRoot_nodes env m np its
             else Inr (mkNodeInfo env (dn_id it), vec3to2 v)))"

definition findInfoNavRoot :: "Env \<Rightarrow> MapImpl \<Rightarrow> vec2 \<Rightarrow> error + NodeInfo \<times> vec2" where
  "findInfoNavRoot env m np = findInfoNavRoot_nodes env m np (divisionNodes m)"

text \<open>
  The test \<open>desire < 3\<close> of findInfoSdsSampled, where desire is
  \<open>log2 (num / den)\<close> in doubles: a quotient by zero and a negative quotient give an
  infinity or a NaN, which is not below 3, and the logarithm of zero is minus infinity,
  which is.
\<close>

definition desireBelow3 :: "real \<Rightarrow> real \<Rightarrow> bool" where
  "desireBelow3 num den =
     (den \<noteq> 0 \<and> (num / den = 0 \<or> (0 < num / den \<and> log 2 (num / den) < 3)))"

text \<open>
  MapImpl::findInfoSdsSampled: the descent to the child that holds the point. The loop
  over the children returns at the first child that holds it. A descent that never ends
  is \<open>None\<close>.
\<close>

partial_function (option) findInfoSdsSampled ::
  "Env \<Rightarrow> MapImpl \<Rightarrow> NodeInfo \<Rightarrow> vec2 \<Rightarrow> (error + NodeInfo) option" where
  "findInfoSdsSampled env m info sdsPos =
     (if desireBelow3 (navigationSamplesPerViewExtent (options m) * extentsSize env (extents info))
                      (verticalExtent (pos m))
      then Some (Inr info)
      else
        (case find (\<lambda>c. inside env (child env info c) sdsPos) (children env (nodeId info)) of
           Some c \<Rightarrow> findInfoSdsSampled env m (child env info c) sdsPos
         | None \<Rightarrow> Some (Inl RuntimeError)))"

text \<open>
  Lines 144 to 170 of HeightRequest::process: the interpolation weights and the four
  corners around the corner of the tile that is nearest to the point.
\<close>

definition cornerInterpol :: "NodeInfo \<Rightarrow> vec2 \<Rightarrow> vec2 option" where
  "cornerInterpol ni s =
     (let ll = fst (extents ni); ur = snd (extents ni);
          center = ((fst ll + fst ur) * 0.5, (snd ll + snd ur) * 0.5);
          size = (fst ur - fst ll, snd ur - snd ll)
      in if fst size = 0 \<or> snd size = 0 then None
         else Some ((fst s - fst center) / fst size + (if fst s < fst center then 1 else 0),
                    (snd s - snd center) / snd size + (if snd s < snd center then 1 else 0)))"

definition cornerId :: "NodeInfo \<Rightarrow> vec2 \<Rightarrow> TileId" where
  "cornerId ni s =
     (let ll = fst (extents ni); ur = snd (extents ni);
          center = ((fst ll + fst ur) * 0.5, (snd ll + snd ur) * 0.5)
      in (nodeId ni)\<lparr>tile_x := (if fst s < fst center then tile_x (nodeId ni) - 1 else tile_x (nodeId ni)),
                      tile_y := (if snd s < snd center then tile_y (nodeId ni) else tile_y (nodeId ni) - 1)\<rparr>)"

definition prepareCorners :: "TileId \<Rightarrow> CornerRequest list" where
  "prepareCorners cid =
     map (\<lambda>i. \<lparr>cr_nodeId = cid\<lparr>tile_x := tile_x cid + of_nat (i mod 2), tile_y := tile_y cid + of_nat (i div 2)\<rparr>,
               trav = None, cr_result = None\<rparr>) [0, 1, 2, 3]"

text \<open>
  The block "find initial position" with its try and catch: \<open>Inl\<close> is the return of
  Invalid from the handler of std::runtime_error, with the request as it is then;
  \<open>Inr\<close> is the prepared request.
\<close>

definition HeightRequest_locate ::
  "Env \<Rightarrow> MapImpl \<Rightarrow> HeightRequest \<Rightarrow> (HeightRequest + HeightRequest \<times> MapImpl) option" where
  "HeightRequest_locate env m r =
     (case findInfoNavRoot env m (navPos r) of
        Inl e \<Rightarrow> Some (Inl r)
      | Inr (ni0, s) \<Rightarrow>
          (case findInfoSdsSampled env m ni0 s of
             None \<Rightarrow> None
           | Some (Inl e) \<Rightarrow> Some (Inl (r\<lparr>sds := Some s\<rparr>))
           | Some (Inr ni) \<Rightarrow>
               Some (Inr (r\<lparr>sds := Some s, hr_nodeInfo := Some ni,
                             interpol := cornerInterpol ni s,
                             corners := prepareCorners (cornerId ni s)\<rparr>,
                          m\<lparr>lastHeightRequestLod := lod (nodeId ni)\<rparr>))))"

section \<open>HeightRequest: processing\<close>

text \<open>
  The loop over the corners (lines 177 to 192): an Invalid corner returns at once, an
  Indeterminate one clears the flag \<open>determined\<close> and the loop goes on. The corners
  already visited are kept in \<open>seen\<close>. The result Valid stands for the loop left with
  \<open>determined\<close> still true.
\<close>

fun process_corners ::
  "Env \<Rightarrow> MapImpl \<Rightarrow> CornerRequest list \<Rightarrow> CornerRequest list \<Rightarrow> bool
     \<Rightarrow> (Validity \<times> CornerRequest list \<times> MapImpl) option" where
  "process_corners env m seen [] determined =
     Some (if determined then Valid else Indeterminate, seen, m)"
| "process_corners env m seen (it # its) determined =
     (case CornerRequest_process env m it of
        None \<Rightarrow> None
      | Some (v, it', m') \<Rightarrow>
          (case v of
             Invalid \<Rightarrow> Some (Invalid, seen @ it' # its, m')
           | Indeterminate \<Rightarrow> process_corners env m' (seen @ [it']) its False
           | Valid \<Rightarrow> process_corners env m' (seen @ [it']) its determined))"

text \<open>
  Lines 195 to 204: the asserts on the weights, the bilinear interpolation of the four
  surrogates and the conversion to the navigation SRS. Reading an empty optional fails
  its assertion; a point that was never set (NaN) is refused by the convertor.
\<close>

definition HeightRequest_height :: "Env \<Rightarrow> MapImpl \<Rightarrow> HeightRequest \<Rightarrow> error + real" where
  "HeightRequest_height env m r =
     (case interpol r of
        None \<Rightarrow> Inl AssertionFailed
      | Some i \<Rightarrow>
          if \<not> (0 \<le> fst i \<and> fst i \<le> 1) then Inl AssertionFailed
          else if \<not> (0 \<le> snd i \<and> snd i \<le> 1) then Inl AssertionFailed
          else
            (case (cr_result (corners r ! 0), cr_result (corners r ! 1),
                   cr_result (corners r ! 2), cr_result (corners r ! 3)) of
               (Some c0, Some c1, Some c2, Some c3) \<Rightarrow>
                 (case hr_nodeInfo r of
                    None \<Rightarrow> Inl AssertionFailed
                  | Some ni \<Rightarrow>
                      (case sds r of
                         None \<Rightarrow> Inl ConvertError
                       | Some s \<Rightarrow>
                           (case convert env
                                   (vec2to3 s (interpolate (interpolate c2 c3 (fst i))
                                                           (interpolate c0 c1 (fst i)) (snd i)))
                                   (srs ni) (navigationSrs m) of
                              None \<Rightarrow> Inl ConvertError
                            | Some v \<Rightarrow> Inr (v3z v))))
             | _ \<Rightarrow> Inl AssertionFailed))"

text \<open>HeightRequest::process.\<close>

definition HeightRequest_process ::
  "Env \<Rightarrow> MapImpl \<Rightarrow> HeightRequest \<Rightarrow> (error + Validity \<times> HeightRequest \<times> MapImpl) option" where
  "HeightRequest_process env m r =
     (if hr_result r \<noteq> None then Some (Inr (Valid, r, m))
      else
        (case (if corners r = [] then HeightRequest_locate env m r else Some (Inr (r, m))) of
           None \<Rightarrow> None
         | Some (Inl r1) \<Rightarrow> Some (Inr (Invalid, r1, m))
         | Some (Inr (r1, m1)) \<Rightarrow>
             if length (corners r1) \<noteq> 4 then Some (Inl AssertionFailed)
             else
               (case process_corners env m1 [] (corners r1) True of
                  None \<Rightarrow> None
                | Some (v, cs, m2) \<Rightarrow>
                    (case v of
                       Invalid \<Rightarrow> Some (Inr (Invalid, r1\<lparr>corners := cs\<rparr>, m2))
                     | Indeterminate \<Rightarrow> Some (Inr (Indeterminate, r1\<lparr>corners := cs\<rparr>, m2))
                     | Valid \<Rightarrow>
                         (case HeightRequest_height env m2 (r1\<lparr>corners := cs\<rparr>) of
                            Inl e \<Rightarrow> Some (Inl e)
                          | Inr h \<Rightarrow>
                              Some (Inr (Valid, r1\<lparr>corners := cs, hr_result := Some h\<rparr>, m2)))))))"

section \<open>The queue of height requests\<close>

text \<open>
  MapImpl::checkPanZQueue. The queue holds pointers to the requests, and processing
  changes the head request in place: the head of the list is the request as processing
  left it.
\<close>

definition checkPanZQueue :: "Env \<Rightarrow> MapImpl \<Rightarrow> (error + MapImpl) option" where
  "checkPanZQueue env m =
     (case panZQueue (navigation m) of
        [] \<Rightarrow> Some (Inr m)
      | task # rest \<Rightarrow>
          (case HeightRequest_process env m task of
             None \<Rightarrow> None
           | Some (Inl e) \<Rightarrow> Some (Inl e)
           | Some (Inr (v, task', m')) \<Rightarrow>
               (case v of
                  Indeterminate \<Rightarrow>
                    Some (Inr (m'\<lparr>navigation := (navigation m')\<lparr>panZQueue := task' # rest\<rparr>\<rparr>))
                | Invalid \<Rightarrow>
                    Some (Inr (m'\<lparr>navigation := (navigation m')\<lparr>panZQueue := rest\<rparr>\<rparr>))
                | Valid \<Rightarrow>
                    (case hr_result task' of
                       None \<Rightarrow> Some (Inl AssertionFailed)
                     | Some nh \<Rightarrow>
                         Some (Inr (m'\<lparr>navigation := (navigation m')
                           \<lparr>targetPoint :=
                              (case resetOffset task' of
                                 Some off \<Rightarrow>
                                   (v3x (targetPoint (navigation m')),
                                    v3y (targetPoint (navigation m')), nh + off)
                               | None \<Rightarrow>
                                   (case lastPanZShift (navigation m') of
                                      Some l \<Rightarrow>
                                        (v3x (targetPoint (navigation m')),
                                         v3y (targetPoint (navigation m')),
                                         v3z (targetPoint (navigation m')) + (nh - l))
                                    | None \<Rightarrow> targetPoint (navigation m'))),
                            lastPanZShift := Some nh,
                            panZQueue := rest\<rparr>\<rparr>))))))"

section \<open>Entry points that reset the navigation\<close>

text \<open>The constructor of HeightRequest.\<close>

definition HeightRequest_new :: "vec2 \<Rightarrow> HeightRequest" where
  "HeightRequest_new np =
     \<lparr>corners = [], hr_nodeInfo = None, hr_result = None, navPos = np,
      sds = None, interpol = None, resetOffset = None\<rparr>"

text \<open>The constructor of MapImpl::Navigation.\<close>

definition Navigation_new :: Navigation where
  "Navigation_new =
     \<lparr>changeRotation = (0, 0, 0), targetPoint = (0, 0, 0), autoRotation = 0,
      targetViewExtent = 0, geographicMode = Azimuthal, nav_type = Quick,
      panZQueue = [], lastPanZShift = None\<rparr>"

definition resetPositionAltitude :: "real \<Rightarrow> MapImpl \<Rightarrow> MapImpl" where
  "resetPositionAltitude off m =
     m\<lparr>navigation := (navigation m)
        \<lparr>targetPoint := (v3x (targetPoint (navigation m)), v3y (targetPoint (navigation m)), 0),
         lastPanZShift := None,
         panZQueue := [(HeightRequest_new (vec3to2 (position (pos m))))\<lparr>resetOffset := Some off\<rparr>]\<rparr>\<rparr>"

definition resetNavigationGeographicMode :: "MapImpl \<Rightarrow> MapImpl" where
  "resetNavigationGeographicMode m =
     (if geographicNavMode (options m) = Dynamic
      then m\<lparr>navigation := (navigation m)\<lparr>geographicMode := Azimuthal\<rparr>\<rparr>
      else m\<lparr>navigation := (navigation m)\<lparr>geographicMode := geographicNavMode (options m)\<rparr>\<rparr>)"

definition initializeNavigation :: "MapImpl \<Rightarrow> MapImpl" where
  "initializeNavigation m =
     m\<lparr>navigation := (navigation m)
          \<lparr>targetPoint := position (pos m),
           changeRotation := (0, 0, 0),
           targetViewExtent := verticalExtent (pos m),
           autoRotation := autorotate m\<rparr>,
       pos := (pos m)
          \<lparr>orientation := (normalizeAngle (v3x (orientation (pos m))),
                           normalizeAngle (v3y (orientation (pos m))),
                           normalizeAngle (v3z (orientation (pos m))))\<rparr>\<rparr>"

section \<open>The camera of a position\<close>

text \<open>
  The normalisation of a vector by Eigen; the zero vector has no direction (its
  quotient by its length is NaN): \<open>None\<close>.
\<close>

definition normalize :: "vec3 \<Rightarrow> vec3 option" where
  "normalize v =
     (if v3x v * v3x v + v3y v * v3y v + v3z v * v3z v = 0 then None
      else Some (vscale v (1 / sqrt (v3x v * v3x v + v3y v * v3y v + v3z v * v3z v))))"

definition cross :: "vec3 \<Rightarrow> vec3 \<Rightarrow> vec3" where
  "cross a b = (v3y a * v3z b - v3z a * v3y b,
                v3z a * v3x b - v3x a * v3z b,
                v3x a * v3y b - v3y a * v3x b)"

text \<open>The product of the matrix with the columns n, e, d and a vector.\<close>

definition columns3 :: "vec3 \<Rightarrow> vec3 \<Rightarrow> vec3 \<Rightarrow> vec3 \<Rightarrow> vec3" where
  "columns3 n e d v = vadd (vadd (vscale n (v3x v)) (vscale e (v3y v))) (vscale d (v3z v))"

text \<open>The pair of the view direction and the up vector, both normalised.\<close>

definition normalize2 :: "vec3 \<Rightarrow> vec3 \<Rightarrow> vec3 \<Rightarrow> error + vec3 \<times> vec3 \<times> vec3" where
  "normalize2 center dir up =
     (case normalize dir of
        None \<Rightarrow> Inl NotANumber
      | Some dir' \<Rightarrow>
          (case normalize up of
             None \<Rightarrow> Inl NotANumber
           | Some up' \<Rightarrow> Inr (center, dir', up')))"

text \<open>
  MapImpl::positionToCamera, returning (center, dir, up). \<open>rotationMatrix env a w\<close>
  is the linear map of upperLeftSubMatrix(rotationMatrix(a, w)).
\<close>

definition positionToCamera :: "Env \<Rightarrow> MapImpl \<Rightarrow> error + vec3 \<times> vec3 \<times> vec3" where
  "positionToCamera env m =
     (let rot = orientation (pos m);
          center = position (pos m);
          yaw = (if navigationSrsType m = projected then v3x rot else - v3x rot);
          tmp = (\<lambda>v. rotationMatrix env 2 yaw
                        (rotationMatrix env 1 (- v3y rot) (rotationMatrix env 0 (- v3z rot) v)));
          dir = tmp (1, 0, 0);
          up = tmp (0, 0, -1)
      in case navigationSrsType m of
           projected \<Rightarrow>
             (let dir1 = vadd (v3y dir, v3x dir, - v3z dir) center;
                  up1 = vadd (v3y up, v3x up, - v3z up) center;
                  center1 = navToPhys env center
              in normalize2 center1 (vsub (navToPhys env dir1) center1)
                                    (vsub (navToPhys env up1) center1))
         | geographic \<Rightarrow>
             (let n2 = geoDirect env center 100 0;
                  e2 = geoDirect env center 100 90;
                  center1 = navToPhys env center
              in case normalize (vsub (navToPhys env n2) center1) of
                   None \<Rightarrow> Inl NotANumber
                 | Some n \<Rightarrow>
                     (case normalize (vsub (navToPhys env e2) center1) of
                        None \<Rightarrow> Inl NotANumber
                      | Some e \<Rightarrow>
                          (case normalize (cross n e) of
                             None \<Rightarrow> Inl NotANumber
                           | Some d \<Rightarrow>
                               (case normalize (cross n d) of
                                  None \<Rightarrow> Inl NotANumber
                                | Some e1 \<Rightarrow>
                                    normalize2 center1 (columns3 n e1 d dir)
                                                       (columns3 n e1 d up)))))
         | cartesian \<Rightarrow> Inl InvalidArgument)"

text \<open>
  MapImpl::positionObjectiveDistance. Where the tangent is zero or has a pole, the
  quotient is not a finite real: \<open>None\<close>.
\<close>

definition positionObjectiveDistance :: "MapImpl \<Rightarrow> real option" where
  "positionObjectiveDistance m =
     (if sin (degToRad (verticalFov (pos m) * 0.5)) = 0
         \<or> cos (degToRad (verticalFov (pos m) * 0.5)) = 0
      then None
      else Some (verticalExtent (pos m) * 0.5 / tan (degToRad (verticalFov (pos m) * 0.5))))"

definition convertPositionSubjObj :: "Env \<Rightarrow> MapImpl \<Rightarrow> error + MapImpl" where
  "convertPositionSubjObj env m =
     (case positionToCamera env m of
        Inl e \<Rightarrow> Inl e
      | Inr (center, dir, up) \<Rightarrow>
          (case positionObjectiveDistance m of
             None \<Rightarrow> Inl NotANumber
           | Some dist0 \<Rightarrow>
               (let dist = (if pos_type (pos m) = objective then dist0 * (-1) else dist0)
                in Inr (m\<lparr>pos := (pos m)
                          \<lparr>position := physToNav env (vadd center (vscale dir dist))\<rparr>\<rparr>))))"

section \<open>The gestures\<close>

text \<open>
  MapImpl::pan, lines 612 to 640: the move of the target, scaled by the zoom level and
  rotated by the camera.
\<close>

definition panMove :: "Env \<Rightarrow> vec3 \<Rightarrow> MapImpl \<Rightarrow> vec3" where
  "panMove env val m =
     (let h = (if navigationSrsType m = geographic \<and> geographicMode (navigation m) = Azimuthal
               then cos (v3y (position (pos m)) * 3.14159 / 180) else 1);
          v = verticalExtent (pos m) / 800;
          move = cwiseProduct val (vscale (-2 * v * h, 2 * v, 2) (cameraSensitivityPan (options m)));
          azi = (if navigationSrsType m = geographic \<and> geographicMode (navigation m) = Free
                 then (case geoInverse env (position (pos m)) (targetPoint (navigation m)) of
                         (d, a1, a2) \<Rightarrow> v3x (orientation (pos m)) + (a2 - a1))
                 else v3x (orientation (pos m)))
      in rotationMatrix env 2 (- azi) move)"

text \<open>Lines 650 to 654: the point the pan leads to in a geographic SRS.\<close>

definition panDestination :: "Env \<Rightarrow> vec3 \<Rightarrow> MapImpl \<Rightarrow> vec3" where
  "panDestination env val m =
     (let move = panMove env val m;
          p = geoDirect env (targetPoint (navigation m)) (length2 (vec3to2 move))
                (radToDeg (atan2 env (v3x move) (v3y move)))
      in (v3x p, v3y p, v3z p + v3z move))"

text \<open>Lines 674 and 675, the end of pan.\<close>

definition panFinish :: "MapImpl \<Rightarrow> MapImpl" where
  "panFinish m =
     m\<lparr>navigation := (navigation m)\<lparr>autoRotation := 0, nav_type := navigationType (options m)\<rparr>\<rparr>"

definition pan :: "Env \<Rightarrow> vec3 \<Rightarrow> MapImpl \<Rightarrow> error + MapImpl" where
  "pan env val m =
     (case navigationSrsType m of
        projected \<Rightarrow>
          Inr (panFinish (m\<lparr>navigation := (navigation m)
                 \<lparr>targetPoint := vadd (targetPoint (navigation m)) (panMove env val m)\<rparr>\<rparr>))
      | geographic \<Rightarrow>
          (case geographicMode (navigation m) of
             Azimuthal \<Rightarrow>
               if \<bar>angularDiff env (v3x (position (pos m))) (v3x (panDestination env val m))\<bar> < 150
               then Inr (panFinish (m\<lparr>navigation := (navigation m)
                           \<lparr>targetPoint := panDestination env val m\<rparr>\<rparr>))
               else Inr (panFinish m)
           | Free \<Rightarrow>
               if geoArcDist env (position (pos m)) (panDestination env val m) < 150
               then Inr (panFinish (m\<lparr>navigation := (navigation m)
                           \<lparr>targetPoint := panDestination env val m\<rparr>\<rparr>))
               else Inr (panFinish m)
           | Dynamic \<Rightarrow> Inl InvalidArgument)
      | cartesian \<Rightarrow> Inl InvalidArgument)"

definition rotate :: "vec3 \<Rightarrow> MapImpl \<Rightarrow> MapImpl" where
  "rotate val m =
     m\<lparr>navigation := (navigation m)
        \<lparr>changeRotation :=
           vadd (changeRotation (navigation m))
                (cwiseProduct val (vscale (0.2, -0.1, 0.2) (cameraSensitivityRotate (options m)))),
         geographicMode :=
           (if geographicNavMode (options m) = Dynamic then Free
            else geographicMode (navigation m)),
         autoRotation := 0,
         nav_type := navigationType (options m)\<rparr>\<rparr>"

definition zoom :: "real \<Rightarrow> MapImpl \<Rightarrow> MapImpl" where
  "zoom val m =
     m\<lparr>navigation := (navigation m)
        \<lparr>targetViewExtent :=
           targetViewExtent (navigation m) * (1.001 powr (- (val * cameraSensitivityZoom (options m)))),
         autoRotation := 0,
         nav_type := navigationType (options m)\<rparr>\<rparr>"

definition setPoint :: "vec3 \<Rightarrow> NavigationType \<Rightarrow> MapImpl \<Rightarrow> MapImpl" where
  "setPoint point ty m =
     (if ty = Instant
      then m\<lparr>navigation := (navigation m)
             \<lparr>targetPoint := point, autoRotation := 0, nav_type := ty,
              lastPanZShift := None, panZQueue := []\<rparr>\<rparr>
      else m\<lparr>navigation := (navigation m)
             \<lparr>targetPoint := point, autoRotation := 0, nav_type := ty\<rparr>\<rparr>)"

text \<open>The angularDiff of two vectors is taken component by component.\<close>

definition setRotation :: "Env \<Rightarrow> vec3 \<Rightarrow> NavigationType \<Rightarrow> MapImpl \<Rightarrow> MapImpl" where
  "setRotation env euler ty m =
     m\<lparr>navigation := (navigation m)
        \<lparr>changeRotation :=
           (angularDiff env (v3x (orientation (pos m))) (v3x euler),
            angularDiff env (v3y (orientation (pos m))) (v3y euler),
            angularDiff env (v3z (orientation (pos m))) (v3z euler)),
         autoRotation := 0,
         nav_type := ty\<rparr>\<rparr>"

definition setViewExtent :: "real \<Rightarrow> NavigationType \<Rightarrow> MapImpl \<Rightarrow> MapImpl" where
  "setViewExtent viewExtent ty m =
     m\<lparr>navigation := (navigation m)
        \<lparr>targetViewExtent := viewExtent, autoRotation := 0, nav_type := ty\<rparr>\<rparr>"

section \<open>The tick: MapImpl::updateNavigation\<close>

text \<open>The asserts on the options at the head of updateNavigation (lines 413 to 420).\<close>

definition optionsAsserts :: "MapOptions \<Rightarrow> bool" where
  "optionsAsserts opts =
     (0 \<le> cameraInertiaPan opts \<and> cameraInertiaPan opts < 1
      \<and> 0 \<le> cameraInertiaRotate opts \<and> cameraInertiaRotate opts < 1
      \<and> 0 \<le> cameraInertiaZoom opts \<and> cameraInertiaZoom opts < 1
      \<and> 0 < navigationLatitudeThreshold opts \<and> navigationLatitudeThreshold opts < 90)"

text \<open>
  Lines 428 to 434: a floating position is grounded; the assert that follows holds by
  construction.
\<close>

definition floatingPosition :: "MapImpl \<Rightarrow> MapImpl" where
  "floatingPosition m =
     (if heightMode (pos m) = floating
      then resetPositionAltitude (v3z (position (pos m)))
             (m\<lparr>pos := (pos m)\<lparr>heightMode := fixed\<rparr>\<rparr>)
      else m)"

text \<open>Lines 436 to 439: limit zoom.\<close>

definition limitZoom :: "MapImpl \<Rightarrow> MapImpl" where
  "limitZoom m =
     m\<lparr>navigation := (navigation m)
        \<lparr>targetViewExtent := clamp (targetViewExtent (navigation m))
                                 (positionViewExtentMin (options m))
                                 (positionViewExtentMax (options m))\<rparr>\<rparr>"

text \<open>Lines 441 to 461: the navigation mode and the limit of the latitude.\<close>

definition checkNavigationMode :: "MapImpl \<Rightarrow> MapImpl" where
  "checkNavigationMode m =
     (if navigationSrsType m = geographic
      then
        (if geographicNavMode (options m) = Dynamic
         then
           (if \<bar>v3y (targetPoint (navigation m))\<bar> > navigationLatitudeThreshold (options m) - 0.00001
            then m\<lparr>navigation := (navigation m)\<lparr>geographicMode := Free\<rparr>\<rparr>
            else m)
         else m\<lparr>navigation := (navigation m)\<lparr>geographicMode := geographicNavMode (options m)\<rparr>\<rparr>)
      else m)"

definition limitLatitude :: "MapImpl \<Rightarrow> MapImpl" where
  "limitLatitude m =
     (if navigationSrsType m = geographic \<and> geographicMode (navigation m) = Azimuthal
      then m\<lparr>navigation := (navigation m)
             \<lparr>targetPoint :=
                (v3x (targetPoint (navigation m)),
                 clamp (v3y (targetPoint (navigation m)))
                       (- navigationLatitudeThreshold (options m))
                       (navigationLatitudeThreshold (options m)),
                 v3z (targetPoint (navigation m)))\<rparr>\<rparr>
      else m)"

text \<open>Lines 463 and 464: auto rotation.\<close>

definition applyAutoRotation :: "MapImpl \<Rightarrow> MapImpl" where
  "applyAutoRotation m =
     m\<lparr>navigation := (navigation m)
        \<lparr>changeRotation :=
           (v3x (changeRotation (navigation m)) + autoRotation (navigation m),
            v3y (changeRotation (navigation m)),
            v3z (changeRotation (navigation m)))\<rparr>\<rparr>"

text \<open>
  Lines 466 to 483: the horizontal distance to the target and, in a geographic SRS, the
  two azimuths of the inverse geodesic problem (\<open>None\<close> where they stay NaN).
\<close>

definition horizontalInputs ::
  "Env \<Rightarrow> MapImpl \<Rightarrow> vec3 \<Rightarrow> error + real \<times> (real \<times> real) option" where
  "horizontalInputs env m p =
     (case navigationSrsType m of
        projected \<Rightarrow>
          Inr (length2 (fst (vec3to2 (targetPoint (navigation m))) - fst (vec3to2 p),
                        snd (vec3to2 (targetPoint (navigation m))) - snd (vec3to2 p)), None)
      | geographic \<Rightarrow>
          (case geoInverse env p (targetPoint (navigation m)) of
             (d, a1, a2) \<Rightarrow> Inr (d, Some (a1, a2)))
      | cartesian \<Rightarrow> Inl InvalidArgument)"

text \<open>
  Lines 511 to 540: the horizontal move of the position \<open>p\<close> and, in the free mode,
  of the yaw of \<open>r\<close>. An azimuth that is still NaN is refused by the convertor.
\<close>

definition horizontalMove ::
  "Env \<Rightarrow> MapImpl \<Rightarrow> vec3 \<Rightarrow> vec3 \<Rightarrow> real \<Rightarrow> real \<Rightarrow> (real \<times> real) option
     \<Rightarrow> error + vec3 \<times> vec3" where
  "horizontalMove env m p r horizontal1 horizontal2 azi =
     (if horizontal1 > 0
      then
        (case navigationSrsType m of
           projected \<Rightarrow>
             Inr (vadd p (vscale (vsub (targetPoint (navigation m)) p) (horizontal2 / horizontal1)), r)
         | geographic \<Rightarrow>
             (case geographicMode (navigation m) of
                Free \<Rightarrow>
                  (case azi of
                     None \<Rightarrow> Inl ConvertError
                   | Some (azi1, azi2) \<Rightarrow>
                       (case geoDirectAzi env p horizontal2 azi1 azi2 of
                          (p', azi2') \<Rightarrow> Inr (p', (v3x r + (azi2' - azi1), v3y r, v3z r))))
              | Azimuthal \<Rightarrow>
                  Inr ((v3x p + angularDiff env (v3x p) (v3x (targetPoint (navigation m)))
                                  * (horizontal2 / horizontal1),
                        v3y p + angularDiff env (v3y p) (v3y (targetPoint (navigation m)))
                                  * (horizontal2 / horizontal1),
                        v3z p), r)
              | Dynamic \<Rightarrow> Inl InvalidArgument)
         | cartesian \<Rightarrow> Inl InvalidArgument)
      else Inr (p, r))"

text \<open>Lines 542 to 575: the position wrapped by the periodicity of the SRS.\<close>

definition applyPeriodicity :: "MapImpl \<Rightarrow> vec3 \<Rightarrow> error + vec3" where
  "applyPeriodicity m p =
     (case navigationSrsType m of
        projected \<Rightarrow>
          (case periodicity m of
             None \<Rightarrow> Inr p
           | Some pr \<Rightarrow>
               (case pr_type pr of
                  PeriodicityX \<Rightarrow>
                    Inr (modulo (v3x p + period pr * 0.5) (period pr) - period pr * 0.5,
                         v3y p, v3z p)
                | PeriodicityY \<Rightarrow>
                    Inr (v3x p,
                         modulo (v3y p + period pr * 0.5) (period pr) - period pr * 0.5,
                         v3z p)))
      | geographic \<Rightarrow> Inr (modulo (v3x p + 180) 360 - 180, v3y p, v3z p)
      | cartesian \<Rightarrow> Inl InvalidArgument)"

text \<open>Lines 579 to 582: normalize rotation.\<close>

definition normalizeRotation :: "vec3 \<Rightarrow> vec3" where
  "normalizeRotation r =
     (normalizeAngle (v3x r), clamp (normalizeAngle (v3y r)) 270 350, normalizeAngle (v3z r))"

text \<open>The asserts of lines 584 to 592.\<close>

definition resultAsserts :: "MapImpl \<Rightarrow> vec3 \<Rightarrow> vec3 \<Rightarrow> bool" where
  "resultAsserts m p r =
     (0 \<le> v3x r \<and> v3x r < 360 \<and> 0 \<le> v3y r \<and> v3y r < 360 \<and> 0 \<le> v3z r \<and> v3z r < 360
      \<and> (navigationSrsType m = geographic \<longrightarrow>
            - 180 \<le> v3x p \<and> v3x p \<le> 180 \<and> - 90 \<le> v3y p \<and> v3y p \<le> 90))"

text \<open>
  Lines 594 to 601: the request for the height under the new position is pushed when
  the queue holds fewer than two requests, and written over the last one otherwise.
\<close>

definition verticalCameraAdjustment :: "vec3 \<Rightarrow> HeightRequest list \<Rightarrow> HeightRequest list" where
  "verticalCameraAdjustment p q =
     (if length q < 2 then q @ [HeightRequest_new (vec3to2 p)]
      else butlast q @ [HeightRequest_new (vec3to2 p)])"

text \<open>
  Lines 424 to 605, after the queue has been checked. The solver returns the new
  vertical extent (written to the position through the reference it is given), the
  horizontal and the vertical step and the new rotation.
\<close>

definition updateNavigation_move :: "Env \<Rightarrow> MapImpl \<Rightarrow> error + MapImpl" where
  "updateNavigation_move env m1 =
     (let p = position (pos m1);
          r = orientation (pos m1);
          m = applyAutoRotation (limitLatitude (checkNavigationMode (limitZoom (floatingPosition m1))))
      in case horizontalInputs env m p of
           Inl e \<Rightarrow> Inl e
         | Inr (horizontal1, azi) \<Rightarrow>
             (case navigationSolve env (options m) (nav_type (navigation m)) (1 / 60)
                     (verticalFov (pos m)) horizontal1
                     (v3z (targetPoint (navigation m)) - v3z p)
                     (verticalExtent (pos m))
                     (targetViewExtent (navigation m) - verticalExtent (pos m))
                     r (changeRotation (navigation m)) of
                (extent2, horizontal2, vertical2, r2) \<Rightarrow>
                  (case horizontalMove env m (v3x p, v3y p, v3z p + vertical2) r2
                          horizontal1 horizontal2 azi of
                     Inl e \<Rightarrow> Inl e
                   | Inr (pp, r3) \<Rightarrow>
                       (case applyPeriodicity m pp of
                          Inl e \<Rightarrow> Inl e
                        | Inr p4 \<Rightarrow>
                            if \<not> resultAsserts m p4 (normalizeRotation r3)
                            then Inl AssertionFailed
                            else
                              Inr (m\<lparr>navigation := (navigation m)
                                     \<lparr>changeRotation :=
                                        vsub (changeRotation (navigation m)) (vsub r2 r),
                                      targetPoint :=
                                        vadd (targetPoint (navigation m)) (vsub p4 pp),
                                      panZQueue :=
                                        verticalCameraAdjustment p4 (panZQueue (navigation m))\<rparr>,
                                    pos := (pos m)
                                     \<lparr>position := p4,
                                      orientation := normalizeRotation r3,
                                      verticalExtent := extent2\<rparr>\<rparr>)))))"

text \<open>MapImpl::updateNavigation.\<close>

definition updateNavigation :: "Env \<Rightarrow> MapImpl \<Rightarrow> (error + MapImpl) option" where
  "updateNavigation env m =
     (if \<not> optionsAsserts (options m) then Some (Inl AssertionFailed)
      else
        (case checkPanZQueue env m of
           None \<Rightarrow> None
         | Some (Inl e) \<Rightarrow> Some (Inl e)
         | Some (Inr m1) \<Rightarrow> Some (updateNavigation_move env m1)))"

section \<open>A small map for the examples\<close>

text \<open>
  A square world of side 1024 in the units of the navigation SRS, which is also the SRS
  of the tiles: the tile \<open>(l, a, b)\<close> has the side \<open>1024 / 2 ^ l\<close>, its column
  \<open>a\<close> counts from the left and its row \<open>b\<close> from the top. The convertor is the
  identity and measures distances in the plane, the solver reaches every target in one
  step, a rotation matrix turns by degrees about one axis.
\<close>

definition tile :: "8 word \<Rightarrow> 32 word \<Rightarrow> 32 word \<Rightarrow> TileId" where
  "tile l a b = \<lparr>lod = l, tile_x = a, tile_y = b\<rparr>"

definition tileSide :: "TileId \<Rightarrow> real" where
  "tileSide t = 1024 / 2 ^ unat (lod t)"

definition mkNodeInfo_ex :: "TileId \<Rightarrow> NodeInfo" where
  "mkNodeInfo_ex t =
     \<lparr>nodeId = t,
      extents = ((real (unat (tile_x t)) * tileSide t,
                  1024 - (real (unat (tile_y t)) + 1) * tileSide t),
                 ((real (unat (tile_x t)) + 1) * tileSide t,
                  1024 - real (unat (tile_y t)) * tileSide t)),
      srs = ''sds''\<rparr>"

definition inside_ex :: "NodeInfo \<Rightarrow> vec2 \<Rightarrow> bool" where
  "inside_ex n v =
     (fst (fst (extents n)) \<le> fst v \<and> fst v \<le> fst (snd (extents n))
      \<and> snd (fst (extents n)) \<le> snd v \<and> snd v \<le> snd (snd (extents n)))"

definition children_ex :: "TileId \<Rightarrow> TileId list" where
  "children_ex t =
     map (\<lambda>k. \<lparr>lod = lod t + 1, tile_x = 2 * tile_x t + of_nat (k mod 2),
               tile_y = 2 * tile_y t + of_nat (k div 2)\<rparr>) [0, 1, 2, 3]"

definition angularDiff_ex :: "real \<Rightarrow> real \<Rightarrow> real" where
  "angularDiff_ex a b = (b - a) - 360 * of_int \<lfloor>(b - a + 180) / 360\<rfloor>"

definition rotationMatrix_ex :: "nat \<Rightarrow> real \<Rightarrow> vec3 \<Rightarrow> vec3" where
  "rotationMatrix_ex axis w v =
     (let c = cos (degToRad w); s = sin (degToRad w)
      in if axis = 0 then (v3x v, c * v3y v - s * v3z v, s * v3y v + c * v3z v)
         else if axis = 1 then (c * v3x v - s * v3z v, v3y v, s * v3x v + c * v3z v)
         else (c * v3x v - s * v3y v, s * v3x v + c * v3y v, v3z v))"

definition atan2_ex :: "real \<Rightarrow> real \<Rightarrow> real" where
  "atan2_ex b a =
     (if 0 < a then arctan (b / a)
      else if a < 0 \<and> 0 \<le> b then arctan (b / a) + pi
      else if a < 0 then arctan (b / a) - pi
      else if 0 < b then pi / 2
      else if b < 0 then - (pi / 2)
      else 0)"

definition env_ex :: Env where
  "env_ex =
     \<lparr>convert = (\<lambda>v from to. Some v),
      physToNav = (\<lambda>v. v),
      navToPhys = (\<lambda>v. v),
      geoDirect = (\<lambda>p d a. (v3x p + d * sin (degToRad a), v3y p + d * cos (degToRad a), v3z p)),
      geoDirectAzi = (\<lambda>p d a1 a2.
         ((v3x p + d * sin (degToRad a1), v3y p + d * cos (degToRad a1), v3z p), a1)),
      geoInverse = (\<lambda>a b. (length2 (v3x b - v3x a, v3y b - v3y a), 0, 0)),
      geoArcDist = (\<lambda>a b. length2 (v3x b - v3x a, v3y b - v3y a)),
      validSurrogate = (\<lambda>h. - 10000 < h),
      mkNodeInfo = mkNodeInfo_ex,
      inside = inside_ex,
      child = (\<lambda>n t. mkNodeInfo_ex t),
      children = children_ex,
      extentsSize = (\<lambda>e. max (fst (snd e) - fst (fst e)) (snd (snd e) - snd (fst e))),
      traverse = (\<lambda>ns a. ns),
      navigationSolve = (\<lambda>opts ty dt fov h1 v1 ext dext r cr. (ext + dext, h1, v1, vadd r cr)),
      angularDiff = angularDiff_ex,
      rotationMatrix = rotationMatrix_ex,
      atan2 = atan2_ex,
      shiftOutOfRange = (\<lambda>v n. drop_bit (unat n mod 32) v)\<rparr>"

text \<open>A valid root with four valid leaves, whose surrogates are 10, 20, 30 and 40.\<close>

definition nodes_ex :: "addr \<Rightarrow> TraverseNode" where
  "nodes_ex a =
     (if a = 10 then \<lparr>tn_validity = Valid, tn_nodeId = tile 0 0 0,
                      tn_childs = [11, 12, 13, 14], tn_surrogateValue = 0\<rparr>
      else if a = 11 then \<lparr>tn_validity = Valid, tn_nodeId = tile 1 0 0,
                           tn_childs = [], tn_surrogateValue = 10\<rparr>
      else if a = 12 then \<lparr>tn_validity = Valid, tn_nodeId = tile 1 1 0,
                           tn_childs = [], tn_surrogateValue = 20\<rparr>
      else if a = 13 then \<lparr>tn_validity = Valid, tn_nodeId = tile 1 0 1,
                           tn_childs = [], tn_surrogateValue = 30\<rparr>
      else if a = 14 then \<lparr>tn_validity = Valid, tn_nodeId = tile 1 1 1,
                           tn_childs = [], tn_surrogateValue = 40\<rparr>
      else \<lparr>tn_validity = Invalid, tn_nodeId = tile 0 0 0,
            tn_childs = [], tn_surrogateValue = 0\<rparr>)"

definition options_ex :: MapOptions where
  "options_ex =
     \<lparr>cameraInertiaPan = 0.5, cameraInertiaRotate = 0.5, cameraInertiaZoom = 0.5,
      cameraSensitivityPan = 1, cameraSensitivityRotate = 1, cameraSensitivityZoom = 1,
      navigationLatitudeThreshold = 80,
      positionViewExtentMin = 1, positionViewExtentMax = 1000,
      navigationSamplesPerViewExtent = 1,
      geographicNavMode = Azimuthal, navigationType = Quick\<rparr>"

definition map_ex :: MapImpl where
  "map_ex =
     \<lparr>navigation = Navigation_new\<lparr>targetPoint := (384, 640, 7), targetViewExtent := 100\<rparr>,
      pos = \<lparr>position = (384, 640, 7), orientation = (0, 270, 0), verticalExtent = 100,
             verticalFov = 90, heightMode = fixed, pos_type = objective\<rparr>,
      options = options_ex,
      navigationSrsType = projected,
      navigationSrs = ''nav'',
      periodicity = None,
      divisionNodes = [\<lparr>dn_id = tile 0 0 0, dn_partitioning = bisection, dn_srs = ''sds''\<rparr>],
      autorotate = 0,
      traverseRoot = Some 10,
      nodes = nodes_ex,
      lastHeightRequestLod = 0\<rparr>"

text \<open>The four corners of the request at (384, 640), prepared, and the request.\<close>

definition corner_ex :: "32 word \<Rightarrow> 32 word \<Rightarrow> CornerRequest" where
  "corner_ex a b = \<lparr>cr_nodeId = tile 1 a b, trav = None, cr_result = None\<rparr>"

definition request_ex :: HeightRequest where
  "request_ex =
     \<lparr>corners = [corner_ex 0 0, corner_ex 1 0, corner_ex 0 1, corner_ex 1 1],
      hr_nodeInfo = Some (mkNodeInfo_ex (tile 1 0 0)), hr_result = None, navPos = (384, 640),
      sds = Some (384, 640), interpol = Some (1 / 4, 3 / 4), resetOffset = None\<rparr>"

definition corner_done :: "32 word \<Rightarrow> 32 word \<Rightarrow> addr \<Rightarrow> real \<Rightarrow> CornerRequest" where
  "corner_done a b ad h = \<lparr>cr_nodeId = tile 1 a b, trav = Some ad, cr_result = Some h\<rparr>"

definition corners_done :: "CornerRequest list" where
  "corners_done =
     [corner_done 0 0 11 10, corner_done 1 0 12 20, corner_done 0 1 13 30, corner_done 1 1 14 40]"

text \<open>
  A second prepared request, at (640, 640), and the same request as \<open>request_ex\<close>
  with the offset 5 of resetPositionAltitude.
\<close>

definition request2_ex :: HeightRequest where
  "request2_ex =
     \<lparr>corners = [corner_ex 0 0, corner_ex 1 0, corner_ex 0 1, corner_ex 1 1],
      hr_nodeInfo = Some (mkNodeInfo_ex (tile 1 1 0)), hr_result = None, navPos = (640, 640),
      sds = Some (640, 640), interpol = Some (3 / 4, 3 / 4), resetOffset = None\<rparr>"

definition request_abs :: HeightRequest where
  "request_abs = request_ex\<lparr>resetOffset := Some 5\<rparr>"

text \<open>
  The example map with a queue of an absolute and a relative request, with a queue of
  two relative requests and no sample yet, with a full queue and no tile tree yet, and
  with a rotation still to be done.
\<close>

definition map_queue :: MapImpl where
  "map_queue =
     map_ex\<lparr>navigation := (navigation map_ex)
       \<lparr>panZQueue := [request_abs, request_ex], lastPanZShift := Some 3\<rparr>\<rparr>"

definition map_first :: MapImpl where
  "map_first =
     map_ex\<lparr>navigation := (navigation map_ex)\<lparr>panZQueue := [request_ex, request2_ex]\<rparr>\<rparr>"

definition map_wait :: MapImpl where
  "map_wait = map_queue\<lparr>traverseRoot := None\<rparr>"

definition map_spin :: MapImpl where
  "map_spin = map_ex\<lparr>navigation := (navigation map_ex)\<lparr>changeRotation := (400, 100, - 30)\<rparr>\<rparr>"

text \<open>
  A geographic map with the dynamic mode configured, in the free mode, far from the
  poles; and a geographic map in the azimuthal mode whose target is 150 degrees of
  longitude away from the position.
\<close>

definition map_dyn :: MapImpl where
  "map_dyn =
     map_ex\<lparr>navigationSrsType := geographic,
            options := options_ex\<lparr>geographicNavMode := Dynamic\<rparr>,
            navigation := (navigation map_ex)\<lparr>targetPoint := (10, 20, 0), geographicMode := Free\<rparr>,
            pos := (pos map_ex)\<lparr>position := (10, 20, 0)\<rparr>\<rparr>"

definition map_pole :: MapImpl where
  "map_pole =
     map_ex\<lparr>navigationSrsType := geographic,
            navigation := (navigation map_ex)\<lparr>targetPoint := (150, 0, 0)\<rparr>,
            pos := (pos map_ex)\<lparr>position := (0, 0, 0)\<rparr>\<rparr>"




text \<open>
  A convertor of a projected SRS that does not take straight lines to straight lines:
  the physical height is the height of the navigation SRS less 3/4 of the square of the
  northing, and physToNav adds it back. On it, an objective position that looks north,
  level, with the objective distance 5/4; the map after one call of
  convertPositionSubjObj, then with the type switched to subjective, then after the
  second call.
\<close>

definition env_bend :: Env where
  "env_bend =
     env_ex\<lparr>navToPhys := (\<lambda>v. (v3x v, v3y v, v3z v - 3 / 4 * (v3y v * v3y v))),
            physToNav := (\<lambda>v. (v3x v, v3y v, v3z v + 3 / 4 * (v3y v * v3y v)))\<rparr>"





text \<open>
  The same convertor under a geographic SRS, whose geoDirect is the one of the example:
  an objective position that looks north, level, with the objective distance 1/2; the
  map after one call, with the type switched, and after the second call.
\<close>

definition map_geo_north :: MapImpl where
  "map_geo_north =
     map_ex\<lparr>navigationSrsType := geographic,
            pos := (pos map_ex)\<lparr>position := (10, - 50, 0), orientation := (0, 0, 0),
                                 verticalExtent := 1\<rparr>\<rparr>"

definition map_geo_north1 :: MapImpl where
  "map_geo_north1 =
     map_geo_north\<lparr>pos := (pos map_geo_north)\<lparr>position := (10, - (101 / 2), 603 / 16)\<rparr>\<rparr>"

definition map_geo_north1_switched :: MapImpl where
  "map_geo_north1_switched =
     map_geo_north1\<lparr>pos := (pos map_geo_north1)\<lparr>pos_type := subjective\<rparr>\<rparr>"

definition map_geo_north2 :: MapImpl where
  "map_geo_north2 =
     map_geo_north1_switched\<lparr>pos := (pos map_geo_north1_switched)
        \<lparr>position := (10, - (501 / 10), 3123 / 400)\<rparr>\<rparr>"

section \<open>What processing a request leaves alone\<close>

text \<open>
  Two states of the map that differ at most in the node store and in the statistics
  field: the navigation state, the position, the options and the reference frame are
  the same.
\<close>

definition sameButTree :: "MapImpl \<Rightarrow> MapImpl \<Rightarrow> bool" where
  "sameButTree m m' =
     (navigation m' = navigation m \<and> pos m' = pos m \<and> options m' = options m
      \<and> navigationSrsType m' = navigationSrsType m \<and> navigationSrs m' = navigationSrs m
      \<and> periodicity m' = periodicity m \<and> divisionNodes m' = divisionNodes m
      \<and> autorotate m' = autorotate m \<and> traverseRoot m' = traverseRoot m)"


section \<open>Properties of the corner requests\<close>

lemmas CornerRequest_process_induct =
  CornerRequest_process.raw_induct [rotated 1, consumes 1, case_names step]

lemma CornerRequest_process_frame:
  "CornerRequest_process env m c = Some y \<Longrightarrow> \<exists>ns. snd (snd y) = m\<lparr>nodes := ns\<rparr>"
proof (induct rule: CornerRequest_process_induct)
  case (step f env m c y)
  have triv: "\<exists>ns. m = m\<lparr>nodes := ns\<rparr>"
    by (rule exI [of _ "nodes m"]) simp
  from step(2) show ?case
    by (auto split: option.splits Validity.splits if_splits dest: step(1) intro: triv)
qed

lemma CornerRequest_process_Valid:
  "CornerRequest_process env m c = Some y \<Longrightarrow>
     fst y = Valid \<longrightarrow> (\<exists>e. cr_result (fst (snd y)) = Some e \<and> validSurrogate env e)"
proof (induct rule: CornerRequest_process_induct)
  case (step f env m c y)
  from step(2) show ?case
    by (auto split: option.splits Validity.splits if_splits dest: step(1))
qed

lemma sameButTree_refl: "sameButTree m m"
  by (simp add: sameButTree_def)

lemma sameButTree_trans: "sameButTree a b \<Longrightarrow> sameButTree b c \<Longrightarrow> sameButTree a c"
  by (simp add: sameButTree_def)

lemma sameButTree_nodes: "sameButTree m (m\<lparr>nodes := ns\<rparr>)"
  by (simp add: sameButTree_def)

lemma sameButTree_lod: "sameButTree m (m\<lparr>lastHeightRequestLod := l\<rparr>)"
  by (simp add: sameButTree_def)

lemma CornerRequest_process_same:
  "CornerRequest_process env m c = Some (v, c', m') \<Longrightarrow> sameButTree m m'"
  using CornerRequest_process_frame [of env m c "(v, c', m')"] sameButTree_nodes
  by auto

lemma process_corners_same:
  "process_corners env m seen cs d = Some (v, cs', m') \<Longrightarrow> sameButTree m m'"
proof (induction cs arbitrary: m seen d)
  case Nil
  then show ?case by (simp add: sameButTree_refl)
next
  case (Cons c cs)
  from Cons.prems obtain w c1 m1 where
    cp: "CornerRequest_process env m c = Some (w, c1, m1)"
    by (auto split: option.splits)
  have s1: "sameButTree m m1" by (rule CornerRequest_process_same [OF cp])
  show ?case
  proof (cases w)
    case Invalid
    with Cons.prems cp s1 show ?thesis by simp
  next
    case Indeterminate
    with Cons.prems cp have "process_corners env m1 (seen @ [c1]) cs False = Some (v, cs', m')"
      by simp
    from Cons.IH [OF this] s1 show ?thesis by (rule sameButTree_trans [rotated])
  next
    case Valid
    with Cons.prems cp have "process_corners env m1 (seen @ [c1]) cs d = Some (v, cs', m')"
      by simp
    from Cons.IH [OF this] s1 show ?thesis by (rule sameButTree_trans [rotated])
  qed
qed

lemma HeightRequest_locate_same:
  "HeightRequest_locate env m r = Some (Inr (r1, m1)) \<Longrightarrow>
     sameButTree m m1 \<and> navPos r1 = navPos r \<and> resetOffset r1 = resetOffset r
     \<and> hr_result r1 = hr_result r"
  unfolding HeightRequest_locate_def
  by (auto split: sum.splits option.splits prod.splits simp: sameButTree_lod)

lemma HeightRequest_locate_Invalid:
  "HeightRequest_locate env m r = Some (Inl r1) \<Longrightarrow>
     navPos r1 = navPos r \<and> resetOffset r1 = resetOffset r \<and> hr_result r1 = hr_result r"
  unfolding HeightRequest_locate_def
  by (auto split: sum.splits option.splits prod.splits)

lemma HeightRequest_process_same:
  assumes "HeightRequest_process env m r = Some (Inr (v, r', m'))"
  shows "sameButTree m m' \<and> navPos r' = navPos r \<and> resetOffset r' = resetOffset r
     \<and> (v = Valid \<longrightarrow> hr_result r' \<noteq> None)"
proof (cases "hr_result r \<noteq> None")
  case True
  with assms show ?thesis
    by (auto simp: HeightRequest_process_def sameButTree_refl)
next
  case False
  note noresult = this
  show ?thesis
  proof (cases "if corners r = [] then HeightRequest_locate env m r else Some (Inr (r, m))")
    case None
    with assms noresult show ?thesis by (simp add: HeightRequest_process_def)
  next
    case (Some a)
    show ?thesis
    proof (cases a)
      case (Inl r1)
      with Some have "HeightRequest_locate env m r = Some (Inl r1)"
        by (auto split: if_splits)
      from HeightRequest_locate_Invalid [OF this] assms noresult Some Inl show ?thesis
        by (auto simp: HeightRequest_process_def sameButTree_refl)
    next
      case (Inr b)
      obtain r1 m1 where b: "b = (r1, m1)" by (cases b)
      have pre: "sameButTree m m1 \<and> navPos r1 = navPos r \<and> resetOffset r1 = resetOffset r"
      proof (cases "corners r = []")
        case True
        with Some Inr b have "HeightRequest_locate env m r = Some (Inr (r1, m1))" by simp
        from HeightRequest_locate_same [OF this] show ?thesis by simp
      next
        case False
        with Some Inr b show ?thesis by (simp add: sameButTree_refl)
      qed
      from assms noresult Some Inr b
      obtain w cs m2 where pc: "process_corners env m1 [] (corners r1) True = Some (w, cs, m2)"
        by (auto simp: HeightRequest_process_def split: if_splits option.splits)
      have s2: "sameButTree m1 m2" by (rule process_corners_same [OF pc])
      with pre have s: "sameButTree m m2" by (blast intro: sameButTree_trans)
      from assms noresult Some Inr b pc pre s show ?thesis
        by (auto simp: HeightRequest_process_def split: if_splits Validity.splits sum.splits)
    qed
  qed
qed

lemma process_corners_four:
  assumes p0: "CornerRequest_process env m c0 = Some (v0, d0, m1)"
    and p1: "CornerRequest_process env m1 c1 = Some (v1, d1, m2)"
    and p2: "CornerRequest_process env m2 c2 = Some (v2, d2, m3)"
    and p3: "CornerRequest_process env m3 c3 = Some (v3, d3, m4)"
  shows "(Invalid \<in> {v0, v1, v2, v3} \<longrightarrow>
            (\<exists>cs m'. process_corners env m [] [c0, c1, c2, c3] True = Some (Invalid, cs, m')))
       \<and> (Invalid \<notin> {v0, v1, v2, v3} \<longrightarrow>
            process_corners env m [] [c0, c1, c2, c3] True =
              Some (if Indeterminate \<in> {v0, v1, v2, v3} then Indeterminate else Valid,
                    [d0, d1, d2, d3], m4))"
proof -
  show ?thesis
    apply (cases v0; cases v1; cases v2; cases v3)
    apply (simp_all add: p0 p1 p2 p3)
    done
qed

text \<open>
  Claim C1. A HeightRequest with no result yet and its four corners prepared: the
  corners are processed in their order, each in the map as the one before left it. If
  processing any of them yields Invalid, HeightRequest::process returns Invalid;
  otherwise, if any yields Indeterminate, it returns Indeterminate; otherwise all four
  are Valid and (the preparation having set the weights, in the unit square, the point
  and the tile, and the conversion from the SRS of the tile to the navigation SRS not
  throwing) it stores as its result the height that is the bilinear interpolation of
  the four surrogates, converted to the navigation SRS, and returns Valid.
\<close>

theorem HeightRequest_process_corners:
  assumes nores: "hr_result r = None"
    and cs: "corners r = [c0, c1, c2, c3]"
    and p0: "CornerRequest_process env m c0 = Some (v0, d0, m1)"
    and p1: "CornerRequest_process env m1 c1 = Some (v1, d1, m2)"
    and p2: "CornerRequest_process env m2 c2 = Some (v2, d2, m3)"
    and p3: "CornerRequest_process env m3 c3 = Some (v3, d3, m4)"
  shows "(Invalid \<in> {v0, v1, v2, v3} \<longrightarrow>
            (\<exists>r' m'. HeightRequest_process env m r = Some (Inr (Invalid, r', m'))))
       \<and> (Invalid \<notin> {v0, v1, v2, v3} \<and> Indeterminate \<in> {v0, v1, v2, v3} \<longrightarrow>
            HeightRequest_process env m r =
              Some (Inr (Indeterminate, r\<lparr>corners := [d0, d1, d2, d3]\<rparr>, m4)))
       \<and> (v0 = Valid \<and> v1 = Valid \<and> v2 = Valid \<and> v3 = Valid
            \<and> interpol r = Some i \<and> 0 \<le> fst i \<and> fst i \<le> 1 \<and> 0 \<le> snd i \<and> snd i \<le> 1
            \<and> sds r = Some s \<and> hr_nodeInfo r = Some ni
            \<and> (\<forall>pt. convert env pt (srs ni) (navigationSrs m) = Some (cvt pt)) \<longrightarrow>
            (\<exists>e0 e1 e2 e3.
               cr_result d0 = Some e0 \<and> cr_result d1 = Some e1
               \<and> cr_result d2 = Some e2 \<and> cr_result d3 = Some e3
               \<and> HeightRequest_process env m r =
                   Some (Inr (Valid,
                     r\<lparr>corners := [d0, d1, d2, d3],
                       hr_result := Some (v3z (cvt (vec2to3 s
                         (interpolate (interpolate e2 e3 (fst i))
                                      (interpolate e0 e1 (fst i)) (snd i)))))\<rparr>,
                     m4))))"
proof (intro conjI impI)
  note four = process_corners_four [OF p0 p1 p2 p3]
  {
    assume "Invalid \<in> {v0, v1, v2, v3}"
    with four obtain cs' m' where
      "process_corners env m [] [c0, c1, c2, c3] True = Some (Invalid, cs', m')"
      by blast
    with nores cs
    show "\<exists>r' m'. HeightRequest_process env m r = Some (Inr (Invalid, r', m'))"
      by (simp add: HeightRequest_process_def)
  }
  {
    assume "Invalid \<notin> {v0, v1, v2, v3} \<and> Indeterminate \<in> {v0, v1, v2, v3}"
    with four have
      "process_corners env m [] [c0, c1, c2, c3] True = Some (Indeterminate, [d0, d1, d2, d3], m4)"
      by simp
    with nores cs
    show "HeightRequest_process env m r =
              Some (Inr (Indeterminate, r\<lparr>corners := [d0, d1, d2, d3]\<rparr>, m4))"
      by (simp add: HeightRequest_process_def)
  }
  {
    assume all: "v0 = Valid \<and> v1 = Valid \<and> v2 = Valid \<and> v3 = Valid
            \<and> interpol r = Some i \<and> 0 \<le> fst i \<and> fst i \<le> 1 \<and> 0 \<le> snd i \<and> snd i \<le> 1
            \<and> sds r = Some s \<and> hr_nodeInfo r = Some ni
            \<and> (\<forall>pt. convert env pt (srs ni) (navigationSrs m) = Some (cvt pt))"
    then have allv: "v0 = Valid \<and> v1 = Valid \<and> v2 = Valid \<and> v3 = Valid"
      and ip: "interpol r = Some i" "0 \<le> fst i" "fst i \<le> 1" "0 \<le> snd i" "snd i \<le> 1"
      and sd: "sds r = Some s" and ni: "hr_nodeInfo r = Some ni"
      and cv: "\<forall>pt. convert env pt (srs ni) (navigationSrs m) = Some (cvt pt)"
      by simp_all
    from allv four have pc:
      "process_corners env m [] [c0, c1, c2, c3] True = Some (Valid, [d0, d1, d2, d3], m4)"
      by simp
    from CornerRequest_process_Valid [OF p0] allv obtain e0 where e0: "cr_result d0 = Some e0"
      by auto
    from CornerRequest_process_Valid [OF p1] allv obtain e1 where e1: "cr_result d1 = Some e1"
      by auto
    from CornerRequest_process_Valid [OF p2] allv obtain e2 where e2: "cr_result d2 = Some e2"
      by auto
    from CornerRequest_process_Valid [OF p3] allv obtain e3 where e3: "cr_result d3 = Some e3"
      by auto
    have same: "navigationSrs m4 = navigationSrs m"
      using CornerRequest_process_same [OF p0] CornerRequest_process_same [OF p1]
        CornerRequest_process_same [OF p2] CornerRequest_process_same [OF p3]
      by (simp add: sameButTree_def)
    have h: "HeightRequest_height env m4 (r\<lparr>corners := [d0, d1, d2, d3]\<rparr>) =
        Inr (v3z (cvt (vec2to3 s (interpolate (interpolate e2 e3 (fst i))
                                      (interpolate e0 e1 (fst i)) (snd i)))))"
      using ip sd ni e0 e1 e2 e3 same
        spec [OF cv, of "vec2to3 s (interpolate (interpolate e2 e3 (fst i))
                                      (interpolate e0 e1 (fst i)) (snd i))"]
      by (simp add: HeightRequest_height_def)
    from nores cs pc h e0 e1 e2 e3
    show "\<exists>e0 e1 e2 e3.
               cr_result d0 = Some e0 \<and> cr_result d1 = Some e1
               \<and> cr_result d2 = Some e2 \<and> cr_result d3 = Some e3
               \<and> HeightRequest_process env m r =
                   Some (Inr (Valid,
                     r\<lparr>corners := [d0, d1, d2, d3],
                       hr_result := Some (v3z (cvt (vec2to3 s
                         (interpolate (interpolate e2 e3 (fst i))
                                      (interpolate e0 e1 (fst i)) (snd i)))))\<rparr>,
                     m4))"
      by (simp add: HeightRequest_process_def)
  }
qed

section \<open>The example map, evaluated\<close>

lemma tile_eq: "(tile l a b = tile l' a' b') = (l = l' \<and> a = a' \<and> b = b')"
  by (simp add: tile_def)

lemma childIdTowards_ex: "childIdTowards env (tile 1 a b) (tile 0 0 0) = tile 1 a b"
  by (simp add: childIdTowards_def shiftRight_def tile_def)

lemma corner_ex_process:
  assumes "traverseRoot m = Some 10" and "nodes m = nodes_ex"
  shows "CornerRequest_process env_ex m (corner_ex 0 0) = Some (Valid, corner_done 0 0 11 10, m)"
    and "CornerRequest_process env_ex m (corner_ex 1 0) = Some (Valid, corner_done 1 0 12 20, m)"
    and "CornerRequest_process env_ex m (corner_ex 0 1) = Some (Valid, corner_done 0 1 13 30, m)"
    and "CornerRequest_process env_ex m (corner_ex 1 1) = Some (Valid, corner_done 1 1 14 40, m)"
  using assms
  by (simp_all add: CornerRequest_process.simps corner_ex_def corner_done_def
      nodes_ex_def env_ex_def tile_eq childIdTowards_ex)

lemma corner_ex_wait:
  "traverseRoot m = None \<Longrightarrow>
     CornerRequest_process env_ex m (corner_ex a b) = Some (Indeterminate, corner_ex a b, m)"
  by (simp add: CornerRequest_process.simps corner_ex_def)

lemma corner_ex_invalid:
  "traverseRoot m = Some 99 \<Longrightarrow> nodes m = nodes_ex \<Longrightarrow>
     CornerRequest_process env_ex m (corner_ex a b) = Some (Invalid, (corner_ex a b)\<lparr>trav := Some 99\<rparr>, m)"
  by (simp add: CornerRequest_process.simps corner_ex_def nodes_ex_def)

lemma prepared_request_process:
  assumes "traverseRoot m = Some 10" and "nodes m = nodes_ex"
    and r: "corners r = [corner_ex 0 0, corner_ex 1 0, corner_ex 0 1, corner_ex 1 1]"
      "hr_result r = None" "interpol r = Some (a, b)" "sds r = Some s" "hr_nodeInfo r = Some ni"
    and ab: "0 \<le> a" "a \<le> 1" "0 \<le> b" "b \<le> 1"
  shows "HeightRequest_process env_ex m r =
    Some (Inr (Valid, r\<lparr>corners := corners_done,
                        hr_result := Some (interpolate (interpolate 30 40 a)
                                                       (interpolate 10 20 a) b)\<rparr>, m))"
proof -
  have pc: "process_corners env_ex m [] (corners r) True = Some (Valid, corners_done, m)"
    by (simp add: r corners_done_def corner_ex_process [OF assms(1,2)])
  have h: "HeightRequest_height env_ex m (r\<lparr>corners := corners_done\<rparr>)
      = Inr (interpolate (interpolate 30 40 a) (interpolate 10 20 a) b)"
    by (simp add: HeightRequest_height_def r ab corners_done_def corner_done_def
        env_ex_def vec2to3_def v3z_def)
  show ?thesis
    by (simp add: HeightRequest_process_def pc [unfolded r] h r del: process_corners.simps)
qed

text \<open>
  The request \<open>request_ex\<close> on the example map, where all four corners are Valid and
  the height is 35/2; on the same map without a tile tree, where the corners are
  Indeterminate; and with an invalid root, where they are Invalid.
\<close>

theorem HeightRequest_process_corners_witness:
  "HeightRequest_process env_ex map_ex request_ex =
     Some (Inr (Valid, request_ex\<lparr>corners := corners_done, hr_result := Some (35 / 2)\<rparr>, map_ex))
   \<and> HeightRequest_process env_ex (map_ex\<lparr>traverseRoot := None\<rparr>) request_ex =
     Some (Inr (Indeterminate, request_ex, map_ex\<lparr>traverseRoot := None\<rparr>))
   \<and> (\<exists>r' m'. HeightRequest_process env_ex (map_ex\<lparr>traverseRoot := Some 99\<rparr>) request_ex =
     Some (Inr (Invalid, r', m')))"
proof -
  have root: "traverseRoot map_ex = Some 10" and nodes: "nodes map_ex = nodes_ex"
    by (simp_all add: map_ex_def)
  have r: "hr_result request_ex = None"
    "corners request_ex = [corner_ex 0 0, corner_ex 1 0, corner_ex 0 1, corner_ex 1 1]"
    by (simp_all add: request_ex_def)
  have prep: "interpol request_ex = Some (1 / 4, 3 / 4)"
    "sds request_ex = Some (384, 640)"
    "hr_nodeInfo request_ex = Some (mkNodeInfo_ex (tile 1 0 0))"
    "\<forall>pt. convert env_ex pt (srs (mkNodeInfo_ex (tile 1 0 0))) (navigationSrs map_ex) = Some pt"
    by (simp_all add: request_ex_def env_ex_def)
  have valid: "HeightRequest_process env_ex map_ex request_ex =
     Some (Inr (Valid, request_ex\<lparr>corners := corners_done, hr_result := Some (35 / 2)\<rparr>, map_ex))"
    using HeightRequest_process_corners
      [OF r corner_ex_process [OF root nodes], of "(1 / 4, 3 / 4)" "(384, 640)"
        "mkNodeInfo_ex (tile 1 0 0)" "\<lambda>v. v"] prep
    by (simp add: corner_done_def corners_done_def interpolate_def vec2to3_def v3z_def)
  have none: "traverseRoot (map_ex\<lparr>traverseRoot := None\<rparr>) = None" by simp
  have same: "request_ex\<lparr>corners := [corner_ex 0 0, corner_ex 1 0, corner_ex 0 1, corner_ex 1 1]\<rparr>
      = request_ex"
    by (simp add: request_ex_def)
  have indet: "HeightRequest_process env_ex (map_ex\<lparr>traverseRoot := None\<rparr>) request_ex =
     Some (Inr (Indeterminate, request_ex, map_ex\<lparr>traverseRoot := None\<rparr>))"
    using HeightRequest_process_corners
      [OF r corner_ex_wait [OF none] corner_ex_wait [OF none]
        corner_ex_wait [OF none] corner_ex_wait [OF none]]
    by (simp add: same)
  have bad: "traverseRoot (map_ex\<lparr>traverseRoot := Some 99\<rparr>) = Some 99"
    "nodes (map_ex\<lparr>traverseRoot := Some 99\<rparr>) = nodes_ex"
    by (simp_all add: map_ex_def)
  have invalid: "\<exists>r' m'. HeightRequest_process env_ex (map_ex\<lparr>traverseRoot := Some 99\<rparr>) request_ex =
     Some (Inr (Invalid, r', m'))"
    using HeightRequest_process_corners
      [OF r corner_ex_invalid [OF bad] corner_ex_invalid [OF bad]
        corner_ex_invalid [OF bad] corner_ex_invalid [OF bad]]
    by simp
  from valid indet invalid show ?thesis by blast
qed

section \<open>One step on the queue\<close>

lemma checkPanZQueue_Valid:
  assumes q: "panZQueue (navigation m) = task # rest"
    and pr: "HeightRequest_process env m task = Some (Inr (Valid, task', m'))"
  shows "\<exists>nh. hr_result task' = Some nh \<and>
     checkPanZQueue env m =
       Some (Inr (m'\<lparr>navigation := (navigation m)
         \<lparr>targetPoint :=
            (case resetOffset task of
               Some off \<Rightarrow>
                 (v3x (targetPoint (navigation m)), v3y (targetPoint (navigation m)), nh + off)
             | None \<Rightarrow>
                 (case lastPanZShift (navigation m) of
                    Some l \<Rightarrow>
                      (v3x (targetPoint (navigation m)), v3y (targetPoint (navigation m)),
                       v3z (targetPoint (navigation m)) + (nh - l))
                  | None \<Rightarrow> targetPoint (navigation m))),
          lastPanZShift := Some nh,
          panZQueue := rest\<rparr>\<rparr>))"
proof -
  from HeightRequest_process_same [OF pr]
  have same: "navigation m' = navigation m" and ro: "resetOffset task' = resetOffset task"
    and res: "hr_result task' \<noteq> None"
    by (simp_all add: sameButTree_def)
  from res obtain nh where nh: "hr_result task' = Some nh" by auto
  show ?thesis
    by (rule exI [of _ nh]) (simp add: checkPanZQueue_def q pr nh same ro cong: option.case_cong)
qed

lemma checkPanZQueue_Invalid:
  assumes q: "panZQueue (navigation m) = task # rest"
    and pr: "HeightRequest_process env m task = Some (Inr (Invalid, task', m'))"
  shows "checkPanZQueue env m = Some (Inr (m'\<lparr>navigation := (navigation m)\<lparr>panZQueue := rest\<rparr>\<rparr>))"
proof -
  from HeightRequest_process_same [OF pr] have "navigation m' = navigation m"
    by (simp add: sameButTree_def)
  then show ?thesis by (simp add: checkPanZQueue_def q pr)
qed

lemma checkPanZQueue_Indeterminate:
  assumes q: "panZQueue (navigation m) = task # rest"
    and pr: "HeightRequest_process env m task = Some (Inr (Indeterminate, task', m'))"
  shows "checkPanZQueue env m =
      Some (Inr (m'\<lparr>navigation := (navigation m)\<lparr>panZQueue := task' # rest\<rparr>\<rparr>))"
proof -
  from HeightRequest_process_same [OF pr] have "navigation m' = navigation m"
    by (simp add: sameButTree_def)
  then show ?thesis by (simp add: checkPanZQueue_def q pr)
qed

lemma updateNavigation_split:
  assumes "updateNavigation env m = Some (Inr m')"
  shows "\<exists>m1. checkPanZQueue env m = Some (Inr m1) \<and> updateNavigation_move env m1 = Inr m'"
  using assms unfolding updateNavigation_def
  by (auto split: if_splits option.splits sum.splits)

text \<open>
  Claim C2. The tick calls checkPanZQueue once, before everything else it does, and
  checkPanZQueue takes one step on the head of the queue of height requests. If the
  head resolves Valid with the sampled height \<open>nh\<close>, the third component of
  targetPoint becomes \<open>nh + resetOffset\<close> for an absolute request and grows by
  \<open>nh - lastPanZShift\<close> for a relative one (with a sample stored), lastPanZShift
  becomes \<open>nh\<close> and the head is popped. If it resolves
  Invalid the head is popped and nothing else of the navigation state or of the position
  changes. If it resolves Indeterminate the queue keeps its requests, the head being the
  same request as processing left it.
\<close>

theorem checkPanZQueue_head:
  assumes q: "panZQueue (navigation m) = task # rest"
    and pr: "HeightRequest_process env m task = Some (Inr (v, task', m'))"
  shows "(v = Valid \<longrightarrow>
           (\<exists>nh m2. hr_result task' = Some nh \<and> checkPanZQueue env m = Some (Inr m2)
              \<and> navigation m2 = (navigation m)
                   \<lparr>targetPoint :=
                      (case resetOffset task of
                         Some off \<Rightarrow>
                           (v3x (targetPoint (navigation m)), v3y (targetPoint (navigation m)),
                            nh + off)
                       | None \<Rightarrow>
                           (case lastPanZShift (navigation m) of
                              Some l \<Rightarrow>
                                (v3x (targetPoint (navigation m)),
                                 v3y (targetPoint (navigation m)),
                                 v3z (targetPoint (navigation m)) + (nh - l))
                            | None \<Rightarrow> targetPoint (navigation m))),
                    lastPanZShift := Some nh,
                    panZQueue := rest\<rparr>
              \<and> pos m2 = pos m))
       \<and> (v = Invalid \<longrightarrow>
           (\<exists>m2. checkPanZQueue env m = Some (Inr m2)
              \<and> navigation m2 = (navigation m)\<lparr>panZQueue := rest\<rparr> \<and> pos m2 = pos m))
       \<and> (v = Indeterminate \<longrightarrow>
           (\<exists>m2. checkPanZQueue env m = Some (Inr m2)
              \<and> navigation m2 = (navigation m)\<lparr>panZQueue := task' # rest\<rparr> \<and> pos m2 = pos m
              \<and> navPos task' = navPos task \<and> resetOffset task' = resetOffset task))
       \<and> (\<forall>m3. updateNavigation env m = Some (Inr m3) \<longrightarrow>
           (\<exists>m2. checkPanZQueue env m = Some (Inr m2) \<and> updateNavigation_move env m2 = Inr m3))"
proof -
  have tick: "\<forall>m3. updateNavigation env m = Some (Inr m3) \<longrightarrow>
           (\<exists>m2. checkPanZQueue env m = Some (Inr m2) \<and> updateNavigation_move env m2 = Inr m3)"
    using updateNavigation_split by blast
  from HeightRequest_process_same [OF pr]
  have same: "pos m' = pos m" "navPos task' = navPos task" "resetOffset task' = resetOffset task"
    by (simp_all add: sameButTree_def)
  show ?thesis
  proof (cases v)
    case Valid
    from checkPanZQueue_Valid [OF q pr [unfolded Valid]] same Valid tick show ?thesis by auto
  next
    case Invalid
    from checkPanZQueue_Invalid [OF q pr [unfolded Invalid]] same Invalid tick
    show ?thesis by simp
  next
    case Indeterminate
    from checkPanZQueue_Indeterminate [OF q pr [unfolded Indeterminate]] same Indeterminate tick
    show ?thesis by simp
  qed
qed

text \<open>
  Claim C9. A relative request (no resetOffset) that resolves Valid while lastPanZShift
  is unset leaves targetPoint as it is, stores the sampled height in lastPanZShift and is
  popped; the relative request that resolves Valid next moves the third component of
  targetPoint by the difference of its height to the stored one.
\<close>

theorem checkPanZQueue_first_relative:
  assumes q: "panZQueue (navigation m) = task # rest"
    and rel: "resetOffset task = None"
    and unset: "lastPanZShift (navigation m) = None"
    and pr: "HeightRequest_process env m task = Some (Inr (Valid, task', m'))"
  shows "\<exists>nh m2. hr_result task' = Some nh \<and> checkPanZQueue env m = Some (Inr m2)
     \<and> targetPoint (navigation m2) = targetPoint (navigation m)
     \<and> lastPanZShift (navigation m2) = Some nh
     \<and> panZQueue (navigation m2) = rest
     \<and> (\<forall>task2 rest2 task2' m3.
           rest = task2 # rest2 \<and> resetOffset task2 = None
           \<and> HeightRequest_process env m2 task2 = Some (Inr (Valid, task2', m3))
           \<longrightarrow> (\<exists>nh2 m4. hr_result task2' = Some nh2 \<and> checkPanZQueue env m2 = Some (Inr m4)
                  \<and> targetPoint (navigation m4) =
                      (v3x (targetPoint (navigation m)), v3y (targetPoint (navigation m)),
                       v3z (targetPoint (navigation m)) + (nh2 - nh))
                  \<and> lastPanZShift (navigation m4) = Some nh2
                  \<and> panZQueue (navigation m4) = rest2))"
proof -
  from checkPanZQueue_Valid [OF q pr] rel unset obtain nh where
    nh: "hr_result task' = Some nh" and
    step: "checkPanZQueue env m =
       Some (Inr (m'\<lparr>navigation := (navigation m)\<lparr>lastPanZShift := Some nh, panZQueue := rest\<rparr>\<rparr>))"
    by auto
  define m2 where "m2 = m'\<lparr>navigation := (navigation m)\<lparr>lastPanZShift := Some nh, panZQueue := rest\<rparr>\<rparr>"
  have nav2: "targetPoint (navigation m2) = targetPoint (navigation m)"
    "lastPanZShift (navigation m2) = Some nh" "panZQueue (navigation m2) = rest"
    by (simp_all add: m2_def)
  have next_step: "\<exists>nh2 m4. hr_result task2' = Some nh2 \<and> checkPanZQueue env m2 = Some (Inr m4)
         \<and> targetPoint (navigation m4) =
              (v3x (targetPoint (navigation m)), v3y (targetPoint (navigation m)),
               v3z (targetPoint (navigation m)) + (nh2 - nh))
         \<and> lastPanZShift (navigation m4) = Some nh2
         \<and> panZQueue (navigation m4) = rest2"
    if r: "rest = task2 # rest2" and rel2: "resetOffset task2 = None"
      and pr2: "HeightRequest_process env m2 task2 = Some (Inr (Valid, task2', m3))"
    for task2 rest2 task2' m3
  proof -
    have q2: "panZQueue (navigation m2) = task2 # rest2" using nav2 r by simp
    from checkPanZQueue_Valid [OF q2 pr2] rel2 nav2 show ?thesis by auto
  qed
  show ?thesis
    apply (rule exI [of _ nh], rule exI [of _ m2])
    using nh step nav2 next_step
    apply (simp add: m2_def [symmetric])
    done
qed

text \<open>
  Claim C7. setPoint sets targetPoint and the navigation type; with the type Instant it
  clears lastPanZShift and empties the queue of height requests, with any other type it
  leaves both as they are.
\<close>

theorem setPoint_effect:
  "targetPoint (navigation (setPoint p ty m)) = p
   \<and> nav_type (navigation (setPoint p ty m)) = ty
   \<and> (ty = Instant \<longrightarrow>
        lastPanZShift (navigation (setPoint p ty m)) = None
        \<and> panZQueue (navigation (setPoint p ty m)) = [])
   \<and> (ty \<noteq> Instant \<longrightarrow>
        lastPanZShift (navigation (setPoint p ty m)) = lastPanZShift (navigation m)
        \<and> panZQueue (navigation (setPoint p ty m)) = panZQueue (navigation m))"
  by (simp add: setPoint_def)

text \<open>
  Claim C10. setPoint, setRotation and setViewExtent each set autoRotation to 0, for
  every argument and every navigation type, next to the target they set.
\<close>

theorem set_clears_autoRotation:
  "autoRotation (navigation (setPoint p ty m)) = 0
   \<and> targetPoint (navigation (setPoint p ty m)) = p
   \<and> autoRotation (navigation (setRotation env euler ty m)) = 0
   \<and> changeRotation (navigation (setRotation env euler ty m)) =
        (angularDiff env (v3x (orientation (pos m))) (v3x euler),
         angularDiff env (v3y (orientation (pos m))) (v3y euler),
         angularDiff env (v3z (orientation (pos m))) (v3z euler))
   \<and> autoRotation (navigation (setViewExtent e ty m)) = 0
   \<and> targetViewExtent (navigation (setViewExtent e ty m)) = e"
  by (simp add: setPoint_def setRotation_def setViewExtent_def)

section \<open>The tick\<close>

lemma checkPanZQueue_frame:
  assumes c: "checkPanZQueue env m = Some (Inr m1)"
  shows "pos m1 = pos m \<and> options m1 = options m
     \<and> navigationSrsType m1 = navigationSrsType m \<and> periodicity m1 = periodicity m
     \<and> geographicMode (navigation m1) = geographicMode (navigation m)
     \<and> changeRotation (navigation m1) = changeRotation (navigation m)
     \<and> autoRotation (navigation m1) = autoRotation (navigation m)
     \<and> targetViewExtent (navigation m1) = targetViewExtent (navigation m)
     \<and> nav_type (navigation m1) = nav_type (navigation m)
     \<and> v3x (targetPoint (navigation m1)) = v3x (targetPoint (navigation m))
     \<and> v3y (targetPoint (navigation m1)) = v3y (targetPoint (navigation m))
     \<and> length (panZQueue (navigation m1)) \<le> length (panZQueue (navigation m))"
proof (cases "panZQueue (navigation m)")
  case Nil
  with c show ?thesis by (simp add: checkPanZQueue_def)
next
  case (Cons task rest)
  from c Cons obtain v task' m' where
    pr: "HeightRequest_process env m task = Some (Inr (v, task', m'))"
    by (auto simp: checkPanZQueue_def split: option.splits sum.splits)
  from HeightRequest_process_same [OF pr]
  have same: "pos m' = pos m" "options m' = options m"
    "navigationSrsType m' = navigationSrsType m" "periodicity m' = periodicity m"
    by (simp_all add: sameButTree_def)
  show ?thesis
  proof (cases v)
    case Valid
    from checkPanZQueue_Valid [OF Cons pr [unfolded Valid]] c same Cons show ?thesis
      by (auto simp: v3x_def v3y_def split: option.splits)
  next
    case Invalid
    from checkPanZQueue_Invalid [OF Cons pr [unfolded Invalid]] c same Cons show ?thesis
      by auto
  next
    case Indeterminate
    from checkPanZQueue_Indeterminate [OF Cons pr [unfolded Indeterminate]] c same Cons
    show ?thesis by auto
  qed
qed

lemma modes_queue:
  "panZQueue (navigation (applyAutoRotation (limitLatitude (checkNavigationMode (limitZoom m)))))
     = panZQueue (navigation m)"
  by (simp add: applyAutoRotation_def limitLatitude_def checkNavigationMode_def limitZoom_def)

lemma modes_mode:
  "geographicMode (navigation (applyAutoRotation (limitLatitude (checkNavigationMode (limitZoom m)))))
     = geographicMode (navigation (checkNavigationMode m))"
  by (simp add: applyAutoRotation_def limitLatitude_def checkNavigationMode_def limitZoom_def)

lemma updateNavigation_move_result:
  assumes "updateNavigation_move env m1 = Inr m'"
  shows "panZQueue (navigation m') =
       verticalCameraAdjustment (position (pos m')) (panZQueue (navigation (floatingPosition m1)))
     \<and> geographicMode (navigation m') = geographicMode (navigation (checkNavigationMode (floatingPosition m1)))
     \<and> orientation (pos m') \<in> range normalizeRotation"
  using assms modes_queue [of "floatingPosition m1"] modes_mode [of "floatingPosition m1"]
  unfolding updateNavigation_move_def Let_def
  by (auto split: sum.splits prod.splits if_splits)

lemma modulo_range: "0 < m \<Longrightarrow> 0 \<le> modulo a m \<and> modulo a m < m"
proof -
  assume m: "0 < m"
  have f1: "of_int \<lfloor>a / m\<rfloor> \<le> a / m" by (rule of_int_floor_le)
  have f2: "a / m < of_int \<lfloor>a / m\<rfloor> + 1" by (rule real_of_int_floor_add_one_gt)
  from f1 m have g1: "of_int \<lfloor>a / m\<rfloor> * m \<le> a"
    by (simp only: pos_le_divide_eq)
  from f2 m have g2: "a < (of_int \<lfloor>a / m\<rfloor> + 1) * m"
    by (simp only: pos_divide_less_eq)
  from g1 g2 show ?thesis
    by (simp add: modulo_def algebra_simps)
qed

lemma normalizeRotation_range:
  "0 \<le> v3x (normalizeRotation r) \<and> v3x (normalizeRotation r) < 360
   \<and> 270 \<le> v3y (normalizeRotation r) \<and> v3y (normalizeRotation r) \<le> 350
   \<and> 0 \<le> v3z (normalizeRotation r) \<and> v3z (normalizeRotation r) < 360"
  using modulo_range [of 360 "v3x r"] modulo_range [of 360 "v3z r"]
  by (simp add: normalizeRotation_def normalizeAngle_def clamp_def v3x_def v3y_def v3z_def)

text \<open>
  Claim C4. After a tick that returns, each component of the committed orientation is
  in \<open>[0, 360)\<close> and the pitch, its second component, is in \<open>[270, 350]\<close>.
\<close>

theorem orientation_after_tick:
  assumes "updateNavigation env m = Some (Inr m')"
  shows "0 \<le> v3x (orientation (pos m')) \<and> v3x (orientation (pos m')) < 360
     \<and> 0 \<le> v3y (orientation (pos m')) \<and> v3y (orientation (pos m')) < 360
     \<and> 0 \<le> v3z (orientation (pos m')) \<and> v3z (orientation (pos m')) < 360
     \<and> 270 \<le> v3y (orientation (pos m')) \<and> v3y (orientation (pos m')) \<le> 350"
proof -
  from updateNavigation_split [OF assms] obtain m1 where
    "updateNavigation_move env m1 = Inr m'" by blast
  from updateNavigation_move_result [OF this] obtain r where
    "orientation (pos m') = normalizeRotation r" by blast
  with normalizeRotation_range [of r] show ?thesis by simp
qed

section \<open>The examples of the queue and of the tick\<close>

lemma request_abs_process:
  assumes "traverseRoot m = Some 10" and "nodes m = nodes_ex"
  shows "HeightRequest_process env_ex m request_abs =
     Some (Inr (Valid, request_abs\<lparr>corners := corners_done, hr_result := Some (35 / 2)\<rparr>, m))"
  using prepared_request_process [OF assms, of request_abs "1 / 4" "3 / 4"]
  by (simp add: request_abs_def request_ex_def interpolate_def)

lemma request_ex_process:
  assumes "traverseRoot m = Some 10" and "nodes m = nodes_ex"
  shows "HeightRequest_process env_ex m request_ex =
     Some (Inr (Valid, request_ex\<lparr>corners := corners_done, hr_result := Some (35 / 2)\<rparr>, m))"
  using prepared_request_process [OF assms, of request_ex "1 / 4" "3 / 4"]
  by (simp add: request_ex_def interpolate_def)

lemma request2_ex_process:
  assumes "traverseRoot m = Some 10" and "nodes m = nodes_ex"
  shows "HeightRequest_process env_ex m request2_ex =
     Some (Inr (Valid, request2_ex\<lparr>corners := corners_done, hr_result := Some (45 / 2)\<rparr>, m))"
  using prepared_request_process [OF assms, of request2_ex "3 / 4" "3 / 4"]
  by (simp add: request2_ex_def interpolate_def)

text \<open>
  The step on the queue of \<open>map_queue\<close>, whose head is an absolute request with the
  offset 5 and the height 35/2.
\<close>

theorem checkPanZQueue_head_witness:
  "\<exists>m2. checkPanZQueue env_ex map_queue = Some (Inr m2)
     \<and> navigation m2 = (navigation map_queue)
          \<lparr>targetPoint := (384, 640, 45 / 2), lastPanZShift := Some (35 / 2),
           panZQueue := [request_ex]\<rparr>"
proof -
  have q: "panZQueue (navigation map_queue) = request_abs # [request_ex]"
    by (simp add: map_queue_def)
  have pr: "HeightRequest_process env_ex map_queue request_abs =
     Some (Inr (Valid, request_abs\<lparr>corners := corners_done, hr_result := Some (35 / 2)\<rparr>,
                map_queue))"
    by (rule request_abs_process) (simp_all add: map_queue_def map_ex_def)
  from checkPanZQueue_head [OF q pr] show ?thesis
    by (auto simp: request_abs_def map_queue_def map_ex_def Navigation_new_def v3x_def v3y_def)
qed

text \<open>
  Two steps on the queue of \<open>map_first\<close>: the heights are 35/2 and 45/2, the target
  stays at the altitude 7 in the first step and moves to 12 in the second.
\<close>

theorem checkPanZQueue_first_relative_witness:
  "\<exists>m2 m4. checkPanZQueue env_ex map_first = Some (Inr m2)
     \<and> targetPoint (navigation m2) = (384, 640, 7)
     \<and> lastPanZShift (navigation m2) = Some (35 / 2)
     \<and> checkPanZQueue env_ex m2 = Some (Inr m4)
     \<and> targetPoint (navigation m4) = (384, 640, 12)
     \<and> lastPanZShift (navigation m4) = Some (45 / 2)"
proof -
  have q: "panZQueue (navigation map_first) = request_ex # [request2_ex]"
    and rel: "resetOffset request_ex = None"
    and unset: "lastPanZShift (navigation map_first) = None"
    and tp: "targetPoint (navigation map_first) = (384, 640, 7)"
    by (simp_all add: map_first_def map_ex_def Navigation_new_def request_ex_def)
  have pr: "HeightRequest_process env_ex map_first request_ex =
     Some (Inr (Valid, request_ex\<lparr>corners := corners_done, hr_result := Some (35 / 2)\<rparr>,
                map_first))"
    by (rule request_ex_process) (simp_all add: map_first_def map_ex_def)
  from checkPanZQueue_first_relative [OF q rel unset pr] obtain nh m2 where
    nh: "hr_result (request_ex\<lparr>corners := corners_done, hr_result := Some (35 / 2)\<rparr>) = Some nh"
    and step: "checkPanZQueue env_ex map_first = Some (Inr m2)"
    and nav: "targetPoint (navigation m2) = targetPoint (navigation map_first)"
      "lastPanZShift (navigation m2) = Some nh"
    and nxt: "\<forall>task2 rest2 task2' m3.
           [request2_ex] = task2 # rest2 \<and> resetOffset task2 = None
           \<and> HeightRequest_process env_ex m2 task2 = Some (Inr (Valid, task2', m3))
           \<longrightarrow> (\<exists>nh2 m4. hr_result task2' = Some nh2 \<and> checkPanZQueue env_ex m2 = Some (Inr m4)
                  \<and> targetPoint (navigation m4) =
                      (v3x (targetPoint (navigation map_first)),
                       v3y (targetPoint (navigation map_first)),
                       v3z (targetPoint (navigation map_first)) + (nh2 - nh))
                  \<and> lastPanZShift (navigation m4) = Some nh2
                  \<and> panZQueue (navigation m4) = rest2)"
    by blast
  from nh have nhv: "nh = 35 / 2" by simp
  from checkPanZQueue_Valid [OF q pr] step obtain nav2 where "m2 = map_first\<lparr>navigation := nav2\<rparr>"
    by auto
  then have tree2: "traverseRoot m2 = Some 10" "nodes m2 = nodes_ex"
    by (simp_all add: map_first_def map_ex_def)
  have pr2: "HeightRequest_process env_ex m2 request2_ex =
     Some (Inr (Valid, request2_ex\<lparr>corners := corners_done, hr_result := Some (45 / 2)\<rparr>, m2))"
    by (rule request2_ex_process [OF tree2])
  have "[request2_ex] = request2_ex # [] \<and> resetOffset request2_ex = None
     \<and> HeightRequest_process env_ex m2 request2_ex =
         Some (Inr (Valid, request2_ex\<lparr>corners := corners_done, hr_result := Some (45 / 2)\<rparr>, m2))"
    using pr2 by (simp add: request2_ex_def)
  with nxt obtain nh2 m4 where
    "hr_result (request2_ex\<lparr>corners := corners_done, hr_result := Some (45 / 2)\<rparr>) = Some nh2"
    "checkPanZQueue env_ex m2 = Some (Inr m4)"
    "targetPoint (navigation m4) =
                      (v3x (targetPoint (navigation map_first)),
                       v3y (targetPoint (navigation map_first)),
                       v3z (targetPoint (navigation map_first)) + (nh2 - nh))"
    "lastPanZShift (navigation m4) = Some nh2"
    by blast
  with step nav nhv tp show ?thesis
    by (auto simp: v3x_def v3y_def v3z_def)
qed

text \<open>
  setPoint on \<open>map_queue\<close>, with the type Instant and with the type FlyOver.
\<close>

theorem setPoint_effect_witness:
  "lastPanZShift (navigation (setPoint (1, 2, 3) Instant map_queue)) = None
   \<and> panZQueue (navigation (setPoint (1, 2, 3) Instant map_queue)) = []
   \<and> lastPanZShift (navigation (setPoint (1, 2, 3) FlyOver map_queue)) = Some 3
   \<and> panZQueue (navigation (setPoint (1, 2, 3) FlyOver map_queue)) = [request_abs, request_ex]
   \<and> targetPoint (navigation (setPoint (1, 2, 3) FlyOver map_queue)) = (1, 2, 3)"
  using setPoint_effect [of "(1, 2, 3)" Instant map_queue]
    setPoint_effect [of "(1, 2, 3)" FlyOver map_queue]
  by (simp add: map_queue_def)

lemmas tick_defs =
  updateNavigation_def updateNavigation_move_def optionsAsserts_def checkPanZQueue_def
  floatingPosition_def limitZoom_def checkNavigationMode_def limitLatitude_def
  applyAutoRotation_def horizontalInputs_def horizontalMove_def applyPeriodicity_def
  normalizeRotation_def normalizeAngle_def modulo_def clamp_def resultAsserts_def
  verticalCameraAdjustment_def HeightRequest_new_def resetPositionAltitude_def

lemmas vec_defs =
  v3x_def v3y_def v3z_def vadd_def vsub_def vscale_def vec3to2_def vec2to3_def length2_def

lemma updateNavigation_map_spin:
  "\<exists>m'. updateNavigation env_ex map_spin = Some (Inr m')
      \<and> orientation (pos m') = (40, 270, 330)"
  by (simp add: tick_defs vec_defs map_spin_def map_ex_def options_ex_def env_ex_def
      Navigation_new_def Let_def)

text \<open>
  A tick of \<open>map_spin\<close>: the solver returns the rotation (400, 370, -30), which is
  committed as (40, 270, 330).
\<close>

theorem orientation_after_tick_witness:
  "\<exists>m'. updateNavigation env_ex map_spin = Some (Inr m')
      \<and> orientation (pos m') = (40, 270, 330)
      \<and> 0 \<le> v3x (orientation (pos m')) \<and> v3x (orientation (pos m')) < 360
      \<and> 0 \<le> v3y (orientation (pos m')) \<and> v3y (orientation (pos m')) < 360
      \<and> 0 \<le> v3z (orientation (pos m')) \<and> v3z (orientation (pos m')) < 360
      \<and> 270 \<le> v3y (orientation (pos m')) \<and> v3y (orientation (pos m')) \<le> 350"
proof -
  from updateNavigation_map_spin obtain m' where
    t: "updateNavigation env_ex map_spin = Some (Inr m')"
    and o: "orientation (pos m') = (40, 270, 330)"
    by blast
  from orientation_after_tick [OF t] t o show ?thesis by blast
qed

section \<open>The bound on the queue of height requests\<close>

lemma floatingPosition_queue:
  "length (panZQueue (navigation m)) \<le> 2 \<Longrightarrow>
     length (panZQueue (navigation (floatingPosition m))) \<le> 2"
  by (simp add: floatingPosition_def resetPositionAltitude_def)

lemma verticalCameraAdjustment_length:
  "length q \<le> 2 \<Longrightarrow> length (verticalCameraAdjustment p q) \<le> 2"
  by (simp add: verticalCameraAdjustment_def)

lemma verticalCameraAdjustment_full:
  "length q = 2 \<Longrightarrow> verticalCameraAdjustment p q = [hd q, HeightRequest_new (vec3to2 p)]"
  by (cases q; cases "tl q") (auto simp: verticalCameraAdjustment_def)

lemma updateNavigation_queue:
  assumes "updateNavigation env m = Some (Inr m')"
  shows "\<exists>m1. checkPanZQueue env m = Some (Inr m1)
     \<and> panZQueue (navigation m') =
         verticalCameraAdjustment (position (pos m')) (panZQueue (navigation (floatingPosition m1)))"
proof -
  from updateNavigation_split [OF assms] obtain m1 where
    c: "checkPanZQueue env m = Some (Inr m1)" and mv: "updateNavigation_move env m1 = Inr m'"
    by blast
  from updateNavigation_move_result [OF mv] c show ?thesis by blast
qed

lemma pan_queue: "pan env val m = Inr m' \<Longrightarrow> panZQueue (navigation m') = panZQueue (navigation m)"
  by (auto simp: pan_def panFinish_def split: SrsType.splits NavigationGeographicMode.splits if_splits)

text \<open>
  Claim C5. The queue of height requests never holds more than two requests: a tick,
  checkPanZQueue, resetPositionAltitude, setPoint and the enqueueing at the end of the
  tick keep its length at two or less, the gestures and the other setters do not touch
  it, and it starts empty. When the queue holds two requests, the request made at the
  end of the tick takes the place of the last one instead of being pushed; the queue
  after a tick is the one that checkPanZQueue and the grounding of a floating position
  left, with that request enqueued.
\<close>

theorem heightQueue_bounded:
  assumes le: "length (panZQueue (navigation m)) \<le> 2"
  shows "(\<forall>m'. updateNavigation env m = Some (Inr m') \<longrightarrow> length (panZQueue (navigation m')) \<le> 2)
     \<and> (\<forall>m'. checkPanZQueue env m = Some (Inr m') \<longrightarrow> length (panZQueue (navigation m')) \<le> 2)
     \<and> length (panZQueue (navigation (resetPositionAltitude off m))) \<le> 2
     \<and> length (panZQueue (navigation (setPoint p ty m))) \<le> 2
     \<and> length (verticalCameraAdjustment p (panZQueue (navigation m))) \<le> 2
     \<and> (length (panZQueue (navigation m)) = 2 \<longrightarrow>
          verticalCameraAdjustment p (panZQueue (navigation m)) =
            [hd (panZQueue (navigation m)), HeightRequest_new (vec3to2 p)])
     \<and> (\<forall>m'. updateNavigation env m = Some (Inr m') \<longrightarrow>
          (\<exists>m1. checkPanZQueue env m = Some (Inr m1)
             \<and> panZQueue (navigation m') =
                 verticalCameraAdjustment (position (pos m'))
                   (panZQueue (navigation (floatingPosition m1)))))
     \<and> (\<forall>m'. pan env val m = Inr m' \<longrightarrow> panZQueue (navigation m') = panZQueue (navigation m))
     \<and> panZQueue (navigation (rotate val m)) = panZQueue (navigation m)
     \<and> panZQueue (navigation (zoom z m)) = panZQueue (navigation m)
     \<and> panZQueue (navigation (setRotation env euler ty m)) = panZQueue (navigation m)
     \<and> panZQueue (navigation (setViewExtent e ty m)) = panZQueue (navigation m)
     \<and> panZQueue (navigation (resetNavigationGeographicMode m)) = panZQueue (navigation m)
     \<and> panZQueue Navigation_new = []"
proof -
  have tick: "length (panZQueue (navigation m')) \<le> 2"
    if t: "updateNavigation env m = Some (Inr m')" for m'
  proof -
    from updateNavigation_queue [OF t] obtain m1 where
      c: "checkPanZQueue env m = Some (Inr m1)"
      and q: "panZQueue (navigation m') =
         verticalCameraAdjustment (position (pos m')) (panZQueue (navigation (floatingPosition m1)))"
      by blast
    from checkPanZQueue_frame [OF c] le have "length (panZQueue (navigation m1)) \<le> 2" by simp
    from verticalCameraAdjustment_length [OF floatingPosition_queue [OF this]] q
    show ?thesis by simp
  qed
  have chk: "length (panZQueue (navigation m')) \<le> 2"
    if c: "checkPanZQueue env m = Some (Inr m')" for m'
    using checkPanZQueue_frame [OF c] le by simp
  have r1: "length (panZQueue (navigation (resetPositionAltitude off m))) \<le> 2"
    by (simp add: resetPositionAltitude_def)
  have r2: "length (panZQueue (navigation (setPoint p ty m))) \<le> 2"
    using le by (simp add: setPoint_def)
  have r3: "length (verticalCameraAdjustment p (panZQueue (navigation m))) \<le> 2"
    by (rule verticalCameraAdjustment_length [OF le])
  have r4: "length (panZQueue (navigation m)) = 2 \<longrightarrow>
          verticalCameraAdjustment p (panZQueue (navigation m)) =
            [hd (panZQueue (navigation m)), HeightRequest_new (vec3to2 p)]"
    by (simp add: verticalCameraAdjustment_full)
  have r5: "panZQueue (navigation (rotate val m)) = panZQueue (navigation m)"
    "panZQueue (navigation (zoom z m)) = panZQueue (navigation m)"
    "panZQueue (navigation (setRotation env euler ty m)) = panZQueue (navigation m)"
    "panZQueue (navigation (setViewExtent e ty m)) = panZQueue (navigation m)"
    "panZQueue (navigation (resetNavigationGeographicMode m)) = panZQueue (navigation m)"
    "panZQueue Navigation_new = []"
    by (simp_all add: rotate_def zoom_def setRotation_def setViewExtent_def
        resetNavigationGeographicMode_def Navigation_new_def)
  from tick chk r1 r2 r3 r4 r5 updateNavigation_queue pan_queue show ?thesis
    by blast
qed

lemma request_abs_wait:
  assumes "traverseRoot m = None"
  shows "HeightRequest_process env_ex m request_abs = Some (Inr (Indeterminate, request_abs, m))"
proof -
  have pc: "process_corners env_ex m []
       [corner_ex 0 0, corner_ex 1 0, corner_ex 0 1, corner_ex 1 1] True
     = Some (Indeterminate, [corner_ex 0 0, corner_ex 1 0, corner_ex 0 1, corner_ex 1 1], m)"
    by (simp add: corner_ex_wait [OF assms])
  show ?thesis
    by (simp add: HeightRequest_process_def request_abs_def request_ex_def pc
        del: process_corners.simps)
qed

lemma updateNavigation_map_wait:
  "\<exists>m'. updateNavigation env_ex map_wait = Some (Inr m')
     \<and> panZQueue (navigation m') = [request_abs, HeightRequest_new (384, 640)]"
proof -
  have pr: "HeightRequest_process env_ex map_wait request_abs =
      Some (Inr (Indeterminate, request_abs, map_wait))"
    by (rule request_abs_wait) (simp add: map_wait_def)
  have q: "panZQueue (navigation map_wait) = request_abs # [request_ex]"
    by (simp add: map_wait_def map_queue_def)
  have c: "checkPanZQueue env_ex map_wait = Some (Inr map_wait)"
    using checkPanZQueue_Indeterminate [OF q pr] q
    by (simp add: map_wait_def map_queue_def)
  show ?thesis
    unfolding updateNavigation_def c
    by (simp add: tick_defs vec_defs map_wait_def map_queue_def map_ex_def options_ex_def
        env_ex_def Navigation_new_def Let_def)
qed

text \<open>
  A tick of \<open>map_wait\<close>, whose queue is full and whose head stays Indeterminate as
  long as there is no tile tree: the last request is replaced.
\<close>

theorem heightQueue_bounded_witness:
  "length (panZQueue (navigation map_wait)) = 2
   \<and> (\<exists>m'. updateNavigation env_ex map_wait = Some (Inr m')
         \<and> panZQueue (navigation m') = [request_abs, HeightRequest_new (384, 640)]
         \<and> length (panZQueue (navigation m')) \<le> 2)
   \<and> verticalCameraAdjustment (1, 2, 3) (panZQueue (navigation map_wait)) =
        [request_abs, HeightRequest_new (1, 2)]"
proof -
  have q: "panZQueue (navigation map_wait) = [request_abs, request_ex]"
    by (simp add: map_wait_def map_queue_def)
  then have le: "length (panZQueue (navigation map_wait)) \<le> 2" by simp
  from updateNavigation_map_wait obtain m' where
    t: "updateNavigation env_ex map_wait = Some (Inr m')"
    and qq: "panZQueue (navigation m') = [request_abs, HeightRequest_new (384, 640)]"
    by blast
  note b = heightQueue_bounded [OF le, of env_ex _ "(1, 2, 3)"]
  from b t have "length (panZQueue (navigation m')) \<le> 2" by blast
  moreover from b q have "verticalCameraAdjustment (1, 2, 3) (panZQueue (navigation map_wait)) =
        [request_abs, HeightRequest_new (1, 2)]"
    by (simp add: vec3to2_def)
  ultimately show ?thesis using q t qq by auto
qed

section \<open>The geographic mode of a tick\<close>

lemma floatingPosition_mode:
  "geographicMode (navigation (checkNavigationMode (floatingPosition m))) =
     geographicMode (navigation (checkNavigationMode m))"
  by (simp add: checkNavigationMode_def floatingPosition_def resetPositionAltitude_def v3y_def)

lemma checkNavigationMode_cong:
  assumes "navigationSrsType m1 = navigationSrsType m" and "options m1 = options m"
    and "geographicMode (navigation m1) = geographicMode (navigation m)"
    and "v3y (targetPoint (navigation m1)) = v3y (targetPoint (navigation m))"
  shows "geographicMode (navigation (checkNavigationMode m1)) =
     geographicMode (navigation (checkNavigationMode m))"
  using assms by (simp add: checkNavigationMode_def)

lemma updateNavigation_mode:
  assumes "updateNavigation env m = Some (Inr m')"
  shows "geographicMode (navigation m') = geographicMode (navigation (checkNavigationMode m))"
proof -
  from updateNavigation_split [OF assms] obtain m1 where
    c: "checkPanZQueue env m = Some (Inr m1)" and mv: "updateNavigation_move env m1 = Inr m'"
    by blast
  from updateNavigation_move_result [OF mv]
  have "geographicMode (navigation m') =
      geographicMode (navigation (checkNavigationMode (floatingPosition m1)))"
    by simp
  also have "\<dots> = geographicMode (navigation (checkNavigationMode m1))"
    by (rule floatingPosition_mode)
  also have "\<dots> = geographicMode (navigation (checkNavigationMode m))"
    using checkPanZQueue_frame [OF c] by (intro checkNavigationMode_cong) simp_all
  finally show ?thesis .
qed

text \<open>
  Claim C3, amended. In a geographic navigation SRS the tick resolves the mode before
  the solver runs: with the dynamic mode configured, the mode becomes Free when the
  absolute latitude of the target exceeds the threshold less 0.00001 and otherwise keeps
  the value it had (it is not set back to Azimuthal); with another mode configured, the
  mode becomes the configured one. A mode that is not Dynamic before the tick is not
  Dynamic after the resolution, the mode at the end of a tick is the resolved one, and
  the constructor, rotate and resetNavigationGeographicMode never store Dynamic.
\<close>

theorem geographicMode_resolution:
  "(navigationSrsType m = geographic \<and> geographicNavMode (options m) = Dynamic \<longrightarrow>
      geographicMode (navigation (checkNavigationMode m)) =
        (if \<bar>v3y (targetPoint (navigation m))\<bar> > navigationLatitudeThreshold (options m) - 0.00001
         then Free else geographicMode (navigation m)))
   \<and> (navigationSrsType m = geographic \<and> geographicNavMode (options m) \<noteq> Dynamic \<longrightarrow>
      geographicMode (navigation (checkNavigationMode m)) = geographicNavMode (options m))
   \<and> (geographicMode (navigation m) \<noteq> Dynamic \<longrightarrow>
      geographicMode (navigation (checkNavigationMode m)) \<noteq> Dynamic)
   \<and> (\<forall>m'. updateNavigation env m = Some (Inr m') \<longrightarrow>
      geographicMode (navigation m') = geographicMode (navigation (checkNavigationMode m)))
   \<and> (geographicMode (navigation m) \<noteq> Dynamic \<longrightarrow>
      geographicMode (navigation (rotate val m)) \<noteq> Dynamic)
   \<and> geographicMode (navigation (resetNavigationGeographicMode m)) \<noteq> Dynamic
   \<and> geographicMode Navigation_new = Azimuthal"
proof -
  have a: "navigationSrsType m = geographic \<and> geographicNavMode (options m) = Dynamic \<longrightarrow>
      geographicMode (navigation (checkNavigationMode m)) =
        (if \<bar>v3y (targetPoint (navigation m))\<bar> > navigationLatitudeThreshold (options m) - 0.00001
         then Free else geographicMode (navigation m))"
    by (simp add: checkNavigationMode_def)
  have b: "navigationSrsType m = geographic \<and> geographicNavMode (options m) \<noteq> Dynamic \<longrightarrow>
      geographicMode (navigation (checkNavigationMode m)) = geographicNavMode (options m)"
    by (simp add: checkNavigationMode_def)
  have c: "geographicMode (navigation m) \<noteq> Dynamic \<longrightarrow>
      geographicMode (navigation (checkNavigationMode m)) \<noteq> Dynamic"
    by (simp add: checkNavigationMode_def)
  have d: "geographicMode (navigation m) \<noteq> Dynamic \<longrightarrow>
      geographicMode (navigation (rotate val m)) \<noteq> Dynamic"
    by (simp add: rotate_def)
  have e: "geographicMode (navigation (resetNavigationGeographicMode m)) \<noteq> Dynamic"
    by (simp add: resetNavigationGeographicMode_def)
  have f: "geographicMode Navigation_new = Azimuthal"
    by (simp add: Navigation_new_def)
  from a b c d e f updateNavigation_mode show ?thesis by blast
qed

lemma updateNavigation_map_dyn:
  "map_option (map_sum id (geographicMode \<circ> navigation)) (updateNavigation env_ex map_dyn)
     = Some (Inr Free)"
  by (simp add: tick_defs vec_defs map_dyn_def map_ex_def options_ex_def env_ex_def
      Navigation_new_def Let_def)

text \<open>
  The claim C3 as stated fails on \<open>map_dyn\<close>: the dynamic mode is configured, the
  SRS is geographic, the latitude 20 of the target is below the threshold 80, and the
  resolved mode is Free, the mode stored before the tick, not Azimuthal.
\<close>

theorem geographicMode_counterexample:
  "navigationSrsType map_dyn = geographic
   \<and> geographicNavMode (options map_dyn) = Dynamic
   \<and> \<not> \<bar>v3y (targetPoint (navigation map_dyn))\<bar>
          > navigationLatitudeThreshold (options map_dyn) - 0.00001
   \<and> geographicMode (navigation (checkNavigationMode map_dyn)) = Free
   \<and> map_option (map_sum id (geographicMode \<circ> navigation)) (updateNavigation env_ex map_dyn)
        = Some (Inr Free)"
  using updateNavigation_map_dyn
  by (simp add: map_dyn_def map_ex_def options_ex_def checkNavigationMode_def v3y_def
      Navigation_new_def)

text \<open>
  The resolution on \<open>map_dyn\<close>, on the same map with the target at the latitude
  85, on the same map in the azimuthal mode, and with the azimuthal mode configured.
\<close>

theorem geographicMode_resolution_witness:
  "geographicMode (navigation (checkNavigationMode map_dyn)) = Free
   \<and> geographicMode (navigation (checkNavigationMode
        (map_dyn\<lparr>navigation := (navigation map_dyn)
           \<lparr>targetPoint := (10, 85, 0), geographicMode := Azimuthal\<rparr>\<rparr>))) = Free
   \<and> geographicMode (navigation (checkNavigationMode
        (map_dyn\<lparr>navigation := (navigation map_dyn)\<lparr>geographicMode := Azimuthal\<rparr>\<rparr>))) = Azimuthal
   \<and> geographicMode (navigation (checkNavigationMode
        (map_dyn\<lparr>options := options_ex\<rparr>))) = Azimuthal
   \<and> (\<exists>m'. updateNavigation env_ex map_dyn = Some (Inr m')
         \<and> geographicMode (navigation m') = Free)"
proof -
  from updateNavigation_map_dyn obtain m' where
    t: "updateNavigation env_ex map_dyn = Some (Inr m')"
    by (cases "updateNavigation env_ex map_dyn") (auto simp: map_sum_def split: sum.splits)
  have g: "navigationSrsType map_dyn = geographic"
    "geographicNavMode (options map_dyn) = Dynamic"
    "geographicMode (navigation map_dyn) = Free"
    "v3y (targetPoint (navigation map_dyn)) = 20"
    "navigationLatitudeThreshold (options map_dyn) = 80"
    by (simp_all add: map_dyn_def map_ex_def options_ex_def v3y_def)
  from geographicMode_resolution [of map_dyn env_ex] g t
  have 1: "geographicMode (navigation (checkNavigationMode map_dyn)) = Free"
    and 5: "geographicMode (navigation m') = Free"
    by auto
  from geographicMode_resolution
    [of "map_dyn\<lparr>navigation := (navigation map_dyn)
           \<lparr>targetPoint := (10, 85, 0), geographicMode := Azimuthal\<rparr>\<rparr>"] g
  have 2: "geographicMode (navigation (checkNavigationMode
        (map_dyn\<lparr>navigation := (navigation map_dyn)
           \<lparr>targetPoint := (10, 85, 0), geographicMode := Azimuthal\<rparr>\<rparr>))) = Free"
    by (simp add: v3y_def)
  from geographicMode_resolution
    [of "map_dyn\<lparr>navigation := (navigation map_dyn)\<lparr>geographicMode := Azimuthal\<rparr>\<rparr>"] g
  have 3: "geographicMode (navigation (checkNavigationMode
        (map_dyn\<lparr>navigation := (navigation map_dyn)\<lparr>geographicMode := Azimuthal\<rparr>\<rparr>))) = Azimuthal"
    by simp
  from geographicMode_resolution [of "map_dyn\<lparr>options := options_ex\<rparr>"] g
  have 4: "geographicMode (navigation (checkNavigationMode
        (map_dyn\<lparr>options := options_ex\<rparr>))) = Azimuthal"
    by (simp add: options_ex_def)
  from 1 2 3 4 5 t show ?thesis by blast
qed

section \<open>The pan in a geographic SRS\<close>

text \<open>
  Claim C6, amended. In a geographic navigation SRS, pan leaves targetPoint as it is
  when the jump to the computed destination is 150 or more, and sets targetPoint to the
  destination when the jump is less than 150; the jump is the absolute angular
  difference of the longitudes of the position and of the destination in the azimuthal
  mode and the arc distance of the two points in the free mode. In both modes pan clears
  autoRotation and sets the configured navigation type either way. With the mode
  Dynamic pan throws.
\<close>

theorem pan_geographic:
  assumes geo: "navigationSrsType m = geographic"
  shows "(geographicMode (navigation m) = Azimuthal \<longrightarrow>
           (\<exists>m'. pan env val m = Inr m'
              \<and> targetPoint (navigation m') =
                  (if 150 \<le> \<bar>angularDiff env (v3x (position (pos m)))
                                              (v3x (panDestination env val m))\<bar>
                   then targetPoint (navigation m) else panDestination env val m)
              \<and> autoRotation (navigation m') = 0
              \<and> nav_type (navigation m') = navigationType (options m)))
       \<and> (geographicMode (navigation m) = Free \<longrightarrow>
           (\<exists>m'. pan env val m = Inr m'
              \<and> targetPoint (navigation m') =
                  (if 150 \<le> geoArcDist env (position (pos m)) (panDestination env val m)
                   then targetPoint (navigation m) else panDestination env val m)
              \<and> autoRotation (navigation m') = 0
              \<and> nav_type (navigation m') = navigationType (options m)))
       \<and> (geographicMode (navigation m) = Dynamic \<longrightarrow> pan env val m = Inl InvalidArgument)"
  using geo by (simp add: pan_def panFinish_def)

lemma panDestination_map_pole:
  "position (pos m) = (lon, 0, 0) \<Longrightarrow> orientation (pos m) = (0, 270, 0) \<Longrightarrow>
   navigationSrsType m = geographic \<Longrightarrow> geographicMode (navigation m) = Azimuthal \<Longrightarrow>
   targetPoint (navigation m) = (150, 0, 0) \<Longrightarrow> cameraSensitivityPan (options m) = 1 \<Longrightarrow>
   panDestination env_ex (0, 0, 1) m = (150, 0, 2)"
  by (simp add: panDestination_def panMove_def env_ex_def rotationMatrix_ex_def atan2_ex_def
      degToRad_def radToDeg_def cwiseProduct_def vec_defs Let_def)

lemma angularDiff_ex_150: "angularDiff_ex 0 150 = 150" "angularDiff_ex 100 150 = 50"
  by (simp_all add: angularDiff_ex_def)

text \<open>
  The claim C6 as stated fails on \<open>map_pole\<close>: the destination of the pan by
  (0, 0, 1) is (150, 0, 2), its jump from the position is 150, which is not greater than
  150, and targetPoint is left at (150, 0, 0).
\<close>

theorem pan_geographic_counterexample:
  "navigationSrsType map_pole = geographic
   \<and> geographicMode (navigation map_pole) = Azimuthal
   \<and> panDestination env_ex (0, 0, 1) map_pole = (150, 0, 2)
   \<and> \<bar>angularDiff env_ex (v3x (position (pos map_pole)))
                        (v3x (panDestination env_ex (0, 0, 1) map_pole))\<bar> = 150
   \<and> map_sum id (targetPoint \<circ> navigation) (pan env_ex (0, 0, 1) map_pole) = Inr (150, 0, 0)"
proof -
  have d: "panDestination env_ex (0, 0, 1) map_pole = (150, 0, 2)"
    by (rule panDestination_map_pole [of _ 0])
      (simp_all add: map_pole_def map_ex_def options_ex_def Navigation_new_def)
  have a: "angularDiff env_ex = angularDiff_ex" by (simp add: env_ex_def)
  have g: "navigationSrsType map_pole = geographic"
    "geographicMode (navigation map_pole) = Azimuthal"
    "targetPoint (navigation map_pole) = (150, 0, 0)"
    "position (pos map_pole) = (0, 0, 0)"
    by (simp_all add: map_pole_def map_ex_def options_ex_def Navigation_new_def)
  show ?thesis
    by (simp add: d a g pan_def panFinish_def angularDiff_ex_150 v3x_def)
qed

text \<open>
  The pan by (0, 0, 1) on \<open>map_pole\<close>, where the jump is 150, and on the same map
  with the position at the longitude 100, where the jump is 50.
\<close>

theorem pan_geographic_witness:
  "(\<exists>m'. pan env_ex (0, 0, 1) map_pole = Inr m'
       \<and> targetPoint (navigation m') = (150, 0, 0)
       \<and> autoRotation (navigation m') = 0 \<and> nav_type (navigation m') = Quick)
   \<and> (\<exists>m'. pan env_ex (0, 0, 1) (map_pole\<lparr>pos := (pos map_pole)\<lparr>position := (100, 0, 0)\<rparr>\<rparr>) = Inr m'
       \<and> targetPoint (navigation m') = (150, 0, 2)
       \<and> autoRotation (navigation m') = 0 \<and> nav_type (navigation m') = Quick)"
proof -
  have a: "angularDiff env_ex = angularDiff_ex" by (simp add: env_ex_def)
  have d1: "panDestination env_ex (0, 0, 1) map_pole = (150, 0, 2)"
    by (rule panDestination_map_pole [of _ 0])
      (simp_all add: map_pole_def map_ex_def options_ex_def Navigation_new_def)
  have d2: "panDestination env_ex (0, 0, 1)
       (map_pole\<lparr>pos := (pos map_pole)\<lparr>position := (100, 0, 0)\<rparr>\<rparr>) = (150, 0, 2)"
    by (rule panDestination_map_pole [of _ 100])
      (simp_all add: map_pole_def map_ex_def options_ex_def Navigation_new_def)
  have g: "navigationSrsType map_pole = geographic"
    "geographicMode (navigation map_pole) = Azimuthal"
    "targetPoint (navigation map_pole) = (150, 0, 0)"
    "navigationType (options map_pole) = Quick"
    "position (pos map_pole) = (0, 0, 0)"
    by (simp_all add: map_pole_def map_ex_def options_ex_def Navigation_new_def)
  from pan_geographic [of map_pole env_ex "(0, 0, 1)"] g d1
  have 1: "\<exists>m'. pan env_ex (0, 0, 1) map_pole = Inr m'
       \<and> targetPoint (navigation m') = (150, 0, 0)
       \<and> autoRotation (navigation m') = 0 \<and> nav_type (navigation m') = Quick"
    by (simp add: a angularDiff_ex_150 v3x_def)
  from pan_geographic
    [of "map_pole\<lparr>pos := (pos map_pole)\<lparr>position := (100, 0, 0)\<rparr>\<rparr>" env_ex "(0, 0, 1)"] g d2
  have 2: "\<exists>m'. pan env_ex (0, 0, 1) (map_pole\<lparr>pos := (pos map_pole)\<lparr>position := (100, 0, 0)\<rparr>\<rparr>) = Inr m'
       \<and> targetPoint (navigation m') = (150, 0, 2)
       \<and> autoRotation (navigation m') = 0 \<and> nav_type (navigation m') = Quick"
    by (simp add: a angularDiff_ex_150 v3x_def)
  from 1 2 show ?thesis by blast
qed

section \<open>The conversion between the subjective and the objective position\<close>







lemma trig_ex:
  "cos (degToRad 0) = 1" "sin (degToRad 0) = 0"
  "cos (degToRad (- 270)) = 0" "sin (degToRad (- 270)) = 1"
  "tan (degToRad 45) = 1" "sin (degToRad 45) \<noteq> 0" "cos (degToRad 45) \<noteq> 0"
proof -
  have a: "degToRad (- 270) = - (3 / 2 * pi)" by (simp add: degToRad_def)
  have b: "degToRad 45 = pi / 4" by (simp add: degToRad_def)
  show "cos (degToRad 0) = 1" "sin (degToRad 0) = 0" by (simp_all add: degToRad_def)
  show "cos (degToRad (- 270)) = 0" by (simp only: a cos_minus cos_3over2_pi)
  show "sin (degToRad (- 270)) = 1" by (simp only: a sin_minus sin_3over2_pi minus_minus)
  show "tan (degToRad 45) = 1" unfolding b by (rule tan_45)
  show "sin (degToRad 45) \<noteq> 0" unfolding b by (simp add: sin_45)
  show "cos (degToRad 45) \<noteq> 0" unfolding b by (simp add: cos_45)
qed








lemma env_bend_inverse:
  "physToNav env_bend (navToPhys env_bend v) = v"
  "navToPhys env_bend (physToNav env_bend v) = v"
  by (cases v; simp add: env_bend_def vec_defs)+


lemma sqrt_10000: "sqrt 10000 = 100"
  by (rule real_sqrt_unique) (simp_all add: power2_eq_square)

lemma trig_east: "sin (degToRad 90) = 1" "cos (degToRad 90) = 0"
  by (simp_all add: degToRad_def)

lemma sqrt_15625: "sqrt 15625 = 125"
  by (rule real_sqrt_unique) (simp_all add: power2_eq_square)

lemma positionToCamera_geo_north:
  "positionToCamera env_bend map_geo_north = Inr ((10, - 50, - 1875), (0, 1, 0), (0, 0, 1))"
  by (simp add: positionToCamera_def env_bend_def env_ex_def rotationMatrix_ex_def Let_def
      vec_defs normalize_def normalize2_def trig_ex trig_east sqrt_10000 cross_def columns3_def
      map_geo_north_def map_ex_def)

lemma positionToCamera_geo_north1:
  "positionToCamera env_bend map_geo_north1_switched =
     Inr ((10, - (101 / 2), - 1875), (0, 4 / 5, 3 / 5), (0, - (3 / 5), 4 / 5))"
  by (simp add: positionToCamera_def env_bend_def env_ex_def rotationMatrix_ex_def Let_def
      vec_defs normalize_def normalize2_def trig_ex trig_east sqrt_15625 cross_def columns3_def
      map_geo_north1_switched_def map_geo_north1_def map_geo_north_def map_ex_def)

lemma positionObjectiveDistance_half:
  "verticalExtent (pos m) = 1 \<Longrightarrow> verticalFov (pos m) = 90
    \<Longrightarrow> positionObjectiveDistance m = Some (1 / 2)"
  by (simp add: positionObjectiveDistance_def trig_ex)

text \<open>
  The same in the geographic SRS: the frame of north, east and down that
  positionToCamera builds at the position turns with the northing under \<open>env_bend\<close>,
  and the two calls leave the position (10, -50, 0) at (10, -501/10, 3123/400).
\<close>

lemma convertPositionSubjObj_geographic_ex:
  "convertPositionSubjObj env_bend map_geo_north = Inr map_geo_north1
   \<and> convertPositionSubjObj env_bend map_geo_north1_switched = Inr map_geo_north2
   \<and> position (pos map_geo_north) = (10, - 50, 0)
   \<and> position (pos map_geo_north2) = (10, - (501 / 10), 3123 / 400)"
proof -
  have p: "physToNav env_bend = (\<lambda>v. (v3x v, v3y v, v3z v + 3 / 4 * (v3y v * v3y v)))"
    by (simp add: env_bend_def)
  have d: "positionObjectiveDistance map_geo_north = Some (1 / 2)"
    by (rule positionObjectiveDistance_half) (simp_all add: map_geo_north_def map_ex_def)
  have d1: "positionObjectiveDistance map_geo_north1_switched = Some (1 / 2)"
    by (rule positionObjectiveDistance_half)
      (simp_all add: map_geo_north1_switched_def map_geo_north1_def map_geo_north_def map_ex_def)
  have 1: "convertPositionSubjObj env_bend map_geo_north = Inr map_geo_north1"
    unfolding convertPositionSubjObj_def positionToCamera_geo_north d
    by (simp add: map_geo_north_def map_ex_def map_geo_north1_def vec_defs p)
  have 2: "convertPositionSubjObj env_bend map_geo_north1_switched = Inr map_geo_north2"
    unfolding convertPositionSubjObj_def positionToCamera_geo_north1 d1
    by (simp add: map_geo_north_def map_ex_def map_geo_north1_def map_geo_north1_switched_def
        map_geo_north2_def vec_defs p)
  show ?thesis
    using 1 2
    by (simp add: map_geo_north_def map_ex_def map_geo_north1_def
        map_geo_north1_switched_def map_geo_north2_def)
qed




section \<open>A fresh request on the example map\<close>

lemma desireBelow3_iff:
  assumes "0 < den" and "0 < num"
  shows "desireBelow3 num den = (num < 8 * den)"
proof -
  from assms have q: "0 < num / den" by simp
  have "(log 2 (num / den) < 3) = (num / den < 2 powr 3)"
    using q by (simp add: log_less_iff)
  also have "\<dots> = (num / den < 8)" by simp
  also have "\<dots> = (num < 8 * den)" using assms by (simp add: pos_divide_less_eq)
  finally show ?thesis using assms q by (simp add: desireBelow3_def)
qed

lemma mkNodeInfo_ex_extents:
  "extents (mkNodeInfo_ex (tile 0 0 0)) = ((0, 0), (1024, 1024))"
  "extents (mkNodeInfo_ex (tile 1 0 0)) = ((0, 512), (512, 1024))"
  by (simp_all add: mkNodeInfo_ex_def tile_def tileSide_def)

lemma children_ex_root:
  "children_ex (tile 0 0 0) = [tile 1 0 0, tile 1 1 0, tile 1 0 1, tile 1 1 1]"
  by (simp add: children_ex_def tile_def)

lemma findInfoNavRoot_ex:
  "findInfoNavRoot env_ex map_ex (384, 640) = Inr (mkNodeInfo_ex (tile 0 0 0), (384, 640))"
  by (simp add: findInfoNavRoot_def map_ex_def env_ex_def inside_ex_def mkNodeInfo_ex_extents
      vec2to3_def vec3to2_def)

lemma findInfoSdsSampled_ex:
  "findInfoSdsSampled env_ex map_ex (mkNodeInfo_ex (tile 0 0 0)) (384, 640)
     = Some (Inr (mkNodeInfo_ex (tile 1 0 0)))"
proof -
  have o: "navigationSamplesPerViewExtent (options map_ex) = 1" "verticalExtent (pos map_ex) = 100"
    by (simp_all add: map_ex_def options_ex_def)
  have e: "extentsSize env_ex ((0, 0), (1024, 1024)) = 1024"
    "extentsSize env_ex ((0, 512), (512, 1024)) = 512"
    "children env_ex = children_ex" "child env_ex = (\<lambda>n t. mkNodeInfo_ex t)"
    "inside env_ex = inside_ex"
    by (simp_all add: env_ex_def)
  have d: "\<not> desireBelow3 1024 100" "desireBelow3 512 100"
    by (simp_all add: desireBelow3_iff)
  have n: "nodeId (mkNodeInfo_ex (tile 0 0 0)) = tile 0 0 0"
    by (simp add: mkNodeInfo_ex_def)
  have i: "inside_ex (mkNodeInfo_ex (tile 1 0 0)) (384, 640)"
    by (simp add: inside_ex_def mkNodeInfo_ex_extents)
  have 1: "findInfoSdsSampled env_ex map_ex (mkNodeInfo_ex (tile 1 0 0)) (384, 640)
     = Some (Inr (mkNodeInfo_ex (tile 1 0 0)))"
    by (subst findInfoSdsSampled.simps) (simp add: o e d mkNodeInfo_ex_extents)
  show ?thesis
    by (subst findInfoSdsSampled.simps) (simp add: o e d n i 1 mkNodeInfo_ex_extents children_ex_root)
qed

lemma locate_ex:
  "HeightRequest_locate env_ex map_ex (HeightRequest_new (384, 640)) =
     Some (Inr (request_ex, map_ex\<lparr>lastHeightRequestLod := 1\<rparr>))"
proof -
  have ci: "cornerInterpol (mkNodeInfo_ex (tile 1 0 0)) (384, 640) = Some (1 / 4, 3 / 4)"
    by (simp add: cornerInterpol_def mkNodeInfo_ex_extents Let_def)
  have cid: "cornerId (mkNodeInfo_ex (tile 1 0 0)) (384, 640) = tile 1 0 0"
    by (simp add: cornerId_def mkNodeInfo_ex_extents Let_def) (simp add: mkNodeInfo_ex_def tile_def)
  have pc: "prepareCorners (tile 1 0 0) = [corner_ex 0 0, corner_ex 1 0, corner_ex 0 1, corner_ex 1 1]"
    by (simp add: prepareCorners_def corner_ex_def tile_def)
  have l: "lod (nodeId (mkNodeInfo_ex (tile 1 0 0))) = 1"
    by (simp add: mkNodeInfo_ex_def tile_def)
  show ?thesis
    by (simp add: HeightRequest_locate_def HeightRequest_new_def findInfoNavRoot_ex
        findInfoSdsSampled_ex ci cid pc l request_ex_def)
qed

lemma fresh_request_process:
  "HeightRequest_process env_ex map_ex (HeightRequest_new (384, 640)) =
     Some (Inr (Valid, request_ex\<lparr>corners := corners_done, hr_result := Some (35 / 2)\<rparr>,
                map_ex\<lparr>lastHeightRequestLod := 1\<rparr>))"
proof -
  have n: "HeightRequest_new (384, 640) =
     \<lparr>corners = [], hr_nodeInfo = None, hr_result = None, navPos = (384, 640),
      sds = None, interpol = None, resetOffset = None\<rparr>"
    by (simp add: HeightRequest_new_def)
  have t: "traverseRoot (map_ex\<lparr>lastHeightRequestLod := 1\<rparr>) = Some 10"
    "nodes (map_ex\<lparr>lastHeightRequestLod := 1\<rparr>) = nodes_ex"
    by (simp_all add: map_ex_def)
  have c: "corners request_ex = [corner_ex 0 0, corner_ex 1 0, corner_ex 0 1, corner_ex 1 1]"
    by (simp add: request_ex_def)
  have pc: "process_corners env_ex (map_ex\<lparr>lastHeightRequestLod := 1\<rparr>) []
       [corner_ex 0 0, corner_ex 1 0, corner_ex 0 1, corner_ex 1 1] True
     = Some (Valid, corners_done, map_ex\<lparr>lastHeightRequestLod := 1\<rparr>)"
    by (simp add: corners_done_def corner_ex_process [OF t])
  have h: "HeightRequest_height env_ex (map_ex\<lparr>lastHeightRequestLod := 1\<rparr>)
       (request_ex\<lparr>corners := corners_done\<rparr>) = Inr (35 / 2)"
    by (simp add: HeightRequest_height_def request_ex_def corners_done_def corner_done_def
        env_ex_def vec2to3_def v3z_def interpolate_def)
  have "hr_result (HeightRequest_new (384, 640)) = None" "corners (HeightRequest_new (384, 640)) = []"
    by (simp_all add: n)
  then show ?thesis
    by (simp add: HeightRequest_process_def locate_ex c pc h del: process_corners.simps)
qed

section \<open>Processing returns\<close>

text \<open>
  On a node store whose children have a smaller rank than their parent (the store of a
  tree), the descent of CornerRequest::process ends: processing a corner returns.
\<close>

lemma CornerRequest_process_cached:
  "cr_result c = Some r \<Longrightarrow>
     CornerRequest_process env m c = Some (if validSurrogate env r then Valid else Invalid, c, m)"
  by (subst CornerRequest_process.simps) simp

lemma CornerRequest_process_returns_from:
  assumes wf: "\<And>a ch. ch \<in> set (tn_childs (nodes m a)) \<Longrightarrow> rank ch < (rank a :: nat)"
  shows "cr_result c = None \<Longrightarrow>
     (case trav c of Some a \<Rightarrow> Some a | None \<Rightarrow> traverseRoot m) = Some a \<Longrightarrow>
     \<exists>y. CornerRequest_process env m c = Some y"
proof (induction "rank a" arbitrary: a c rule: less_induct)
  case less
  note nores = less.prems(1) and start = less.prems(2)
  show ?case
  proof (cases "tn_validity (nodes m a)")
    case Indeterminate
    then show ?thesis using nores start by (subst CornerRequest_process.simps) simp
  next
    case Invalid
    then show ?thesis using nores start by (subst CornerRequest_process.simps) simp
  next
    case Valid
    show ?thesis
    proof (cases "tn_nodeId (nodes m a) = cr_nodeId c \<or> tn_childs (nodes m a) = []")
      case True
      have "cr_result (c\<lparr>trav := Some a, cr_result := Some (tn_surrogateValue (nodes m a))\<rparr>)
          = Some (tn_surrogateValue (nodes m a))"
        by simp
      from CornerRequest_process_cached [OF this, of env m] True Valid nores start
      show ?thesis by (subst CornerRequest_process.simps) simp
    next
      case False
      show ?thesis
      proof (cases "find (\<lambda>it. tn_nodeId (nodes m it)
                                = childIdTowards env (cr_nodeId c) (tn_nodeId (nodes m a)))
                         (tn_childs (nodes m a))")
        case None
        with False Valid nores start show ?thesis
          by (subst CornerRequest_process.simps) simp
      next
        case (Some it)
        then have "it \<in> set (tn_childs (nodes m a))"
          by (auto simp: find_Some_iff)
        then have r: "rank it < rank a" by (rule wf)
        have "\<exists>y. CornerRequest_process env m (c\<lparr>trav := Some it\<rparr>) = Some y"
          by (rule less.hyps [OF r]) (simp_all add: nores)
        with Some False Valid nores start show ?thesis
          by (subst CornerRequest_process.simps) simp
      qed
    qed
  qed
qed

lemma CornerRequest_process_returns:
  assumes wf: "\<And>a ch. ch \<in> set (tn_childs (nodes m a)) \<Longrightarrow> rank ch < (rank a :: nat)"
  shows "\<exists>y. CornerRequest_process env m c = Some y"
proof (cases "cr_result c")
  case (Some r)
  from CornerRequest_process_cached [OF this] show ?thesis by blast
next
  case None
  show ?thesis
  proof (cases "case trav c of Some a \<Rightarrow> Some a | None \<Rightarrow> traverseRoot m")
    case N: None
    with None show ?thesis by (subst CornerRequest_process.simps) simp
  next
    case (Some a)
    from CornerRequest_process_returns_from [OF wf None Some] show ?thesis .
  qed
qed

section \<open>The tick returns in a projected SRS\<close>

text \<open>
  In a projected navigation SRS, with options that pass the asserts, the tick returns a
  new state whenever its step on the queue of height requests does.
\<close>

lemma modes_srs:
  "navigationSrsType (applyAutoRotation (limitLatitude (checkNavigationMode (limitZoom (floatingPosition m)))))
     = navigationSrsType m"
  by (simp add: applyAutoRotation_def limitLatitude_def checkNavigationMode_def limitZoom_def
      floatingPosition_def resetPositionAltitude_def)

lemma updateNavigation_move_projected:
  assumes "navigationSrsType m1 = projected"
  shows "\<exists>m'. updateNavigation_move env m1 = Inr m'"
proof -
  define m where
    "m = applyAutoRotation (limitLatitude (checkNavigationMode (limitZoom (floatingPosition m1))))"
  have srs: "navigationSrsType m = projected"
    using assms by (simp add: m_def modes_srs)
  obtain h where hi: "horizontalInputs env m (position (pos m1)) = Inr (h, None)"
    using srs by (simp add: horizontalInputs_def)
  obtain e2 h2 v2 r2 where sv:
    "navigationSolve env (options m) (nav_type (navigation m)) (1 / 60)
       (verticalFov (pos m)) h
       (v3z (targetPoint (navigation m)) - v3z (position (pos m1)))
       (verticalExtent (pos m))
       (targetViewExtent (navigation m) - verticalExtent (pos m))
       (orientation (pos m1)) (changeRotation (navigation m)) = (e2, h2, v2, r2)"
    using prod_cases4 by blast
  define p1 where
    "p1 = (v3x (position (pos m1)), v3y (position (pos m1)), v3z (position (pos m1)) + v2)"
  define pp where
    "pp = (if 0 < h then vadd p1 (vscale (vsub (targetPoint (navigation m)) p1) (h2 / h)) else p1)"
  have hm: "horizontalMove env m p1 r2 h h2 None = Inr (pp, r2)"
    by (simp add: horizontalMove_def srs pp_def)
  have "\<exists>p4. applyPeriodicity m pp = Inr p4"
    by (cases pp; cases "periodicity m"; cases "pr_type (the (periodicity m))")
      (simp_all add: applyPeriodicity_def srs)
  then obtain p4 where ap: "applyPeriodicity m pp = Inr p4" by blast
  have ra: "resultAsserts m p4 (normalizeRotation r2)"
    using srs normalizeRotation_range [of r2] by (simp add: resultAsserts_def)
  show ?thesis
    unfolding updateNavigation_move_def Let_def m_def [symmetric]
    by (simp add: hi sv hm [unfolded p1_def] ap ra)
qed

lemma updateNavigation_returns_projected:
  assumes "optionsAsserts (options m)" and "navigationSrsType m = projected"
    and "checkPanZQueue env m = Some (Inr m1)"
  shows "\<exists>m'. updateNavigation env m = Some (Inr m')"
proof -
  from checkPanZQueue_frame [OF assms(3)] assms(2) have "navigationSrsType m1 = projected"
    by simp
  from updateNavigation_move_projected [OF this, of env] assms(1,3) show ?thesis
    by (auto simp: updateNavigation_def)
qed

end
